theory Spec2Isabelle
  imports Complex_Main "HOL-Library.Sublist"
begin

section \<open>Python values used by the program\<close>

text \<open>
  A Python \<open>str\<close> is modelled as a \<open>string\<close>: a list of 8-bit characters, read as the
  code points 0..255. Strings with code points above 255 are outside the model.

  Every exception the modelled code can raise is a value of \<open>py_error\<close>, and a
  computation that may raise returns \<open>py_error + 'a\<close> with \<open>Inl\<close> for the exception.
\<close>

datatype py_error =
  ValueError | IndexError | KeyError | TypeError | AttributeError | ValidationError

definition bind :: "py_error + 'a \<Rightarrow> ('a \<Rightarrow> py_error + 'b) \<Rightarrow> py_error + 'b" where
  "bind m f = (case m of Inl e \<Rightarrow> Inl e | Inr x \<Rightarrow> f x)"

subsection \<open>Substring test, split, strip, lower\<close>

text \<open>\<open>sub in s\<close>: some suffix of \<open>s\<close> starts with \<open>sub\<close>.\<close>

fun contains :: "string \<Rightarrow> string \<Rightarrow> bool" where
  "contains sub [] = (sub = [])"
| "contains sub (c # cs) = (prefix sub (c # cs) \<or> contains sub cs)"

text \<open>
  \<open>s.split(sep)\<close> for a non-empty separator: scan from the left, cut at each occurrence
  and resume after it, so occurrences never overlap. The result always has at least one
  part.
\<close>

function split_ne :: "string \<Rightarrow> string \<Rightarrow> string list" where
  "split_ne sep [] = [[]]"
| "split_ne sep (c # cs) =
     (if sep \<noteq> [] \<and> prefix sep (c # cs)
      then [] # split_ne sep (drop (length sep) (c # cs))
      else (case split_ne sep cs of [] \<Rightarrow> [[c]] | p # ps \<Rightarrow> (c # p) # ps))"
  by pat_completeness auto
termination
  by (relation "measure (\<lambda>(sep, s). length s)") auto

text \<open>\<open>s.split(sep)\<close> raises \<open>ValueError\<close> on an empty separator.\<close>

definition str_split :: "string \<Rightarrow> string \<Rightarrow> py_error + string list" where
  "str_split sep s = (if sep = [] then Inl ValueError else Inr (split_ne sep s))"

text \<open>\<open>xs[i]\<close> for a literal index \<open>i \<ge> 0\<close>: \<open>IndexError\<close> when out of range.\<close>

definition index :: "'a list \<Rightarrow> nat \<Rightarrow> py_error + 'a" where
  "index xs i = (if i < length xs then Inr (xs ! i) else Inl IndexError)"

text \<open>
  The characters \<open>str.isspace\<close> accepts among the code points 0..255: TAB, LF, VT, FF, CR,
  the separators 0x1C..0x1F, the space, NEL (0x85) and the no-break space (0xA0).
\<close>

definition is_space :: "char \<Rightarrow> bool" where
  "is_space c =
     (let n = (of_char c :: nat)
      in (9 \<le> n \<and> n \<le> 13) \<or> (28 \<le> n \<and> n \<le> 32) \<or> n = 133 \<or> n = 160)"

definition str_strip :: "string \<Rightarrow> string" where
  "str_strip s = rev (dropWhile is_space (rev (dropWhile is_space s)))"

text \<open>\<open>s.lstrip("#")\<close> removes every leading \<open>#\<close>.\<close>

definition lstrip_hash :: "string \<Rightarrow> string" where
  "lstrip_hash s = dropWhile (\<lambda>c. c = CHR ''#'') s"

text \<open>
  \<open>str.lower\<close> on the code points 0..255: A..Z and the Latin-1 capitals 0xC0..0xDE
  (without the multiplication sign 0xD7) move up by 32; every other character stays.
\<close>

definition lower_char :: "char \<Rightarrow> char" where
  "lower_char c =
     (let n = (of_char c :: nat)
      in if (65 \<le> n \<and> n \<le> 90) \<or> (192 \<le> n \<and> n \<le> 222 \<and> n \<noteq> 215)
         then char_of (n + 32) else c)"

definition str_lower :: "string \<Rightarrow> string" where
  "str_lower s = map lower_char s"

text \<open>\<open>sep.join(xs)\<close>.\<close>

fun str_join :: "string \<Rightarrow> string list \<Rightarrow> string" where
  "str_join sep [] = []"
| "str_join sep [x] = x"
| "str_join sep (x # y # ys) = x @ sep @ str_join sep (y # ys)"

subsection \<open>First occurrences\<close>

text \<open>
  The text before the first occurrence of \<open>sep\<close> (all of \<open>s\<close> when there is none), the
  text after it, and the start positions of all occurrences. These describe what the
  parts of a split are; the program itself only calls \<open>split\<close>.
\<close>

fun before_first :: "string \<Rightarrow> string \<Rightarrow> string" where
  "before_first sep [] = []"
| "before_first sep (c # cs) = (if prefix sep (c # cs) then [] else c # before_first sep cs)"

fun after_first :: "string \<Rightarrow> string \<Rightarrow> string" where
  "after_first sep [] = []"
| "after_first sep (c # cs) =
     (if prefix sep (c # cs) then drop (length sep) (c # cs) else after_first sep cs)"

definition occurrences :: "string \<Rightarrow> string \<Rightarrow> nat list" where
  "occurrences sep s = filter (\<lambda>i. prefix sep (drop i s)) [0..<Suc (length s)]"

section \<open>The generated-code parser (services/gemini.py, generate_replica)\<close>

definition HTML_MARK :: string where "HTML_MARK = ''---HTML---''"
definition CSS_MARK :: string where "CSS_MARK = ''---CSS---''"
definition END_MARK :: string where "END_MARK = ''---END---''"
definition FENCE :: string where "FENCE = ''```''"
definition FENCE_HTML :: string where "FENCE_HTML = ''```html''"
definition FENCE_CSS :: string where "FENCE_CSS = ''```css''"

text \<open>
  Lines 110 to 130 of \<open>generate_replica\<close>: \<open>text\<close> is the model's response; the result is
  the pair \<open>(html, css)\<close> before the \<open>:root\<close> block is put in front of \<open>css\<close>.
\<close>

definition parse_response :: "string \<Rightarrow> py_error + (string \<times> string)" where
  "parse_response text =
     (if contains HTML_MARK text \<and> contains CSS_MARK text then
        bind (str_split HTML_MARK text) (\<lambda>parts.
        bind (if length parts > 1
              then bind (index parts 1) (\<lambda>p1.
                   bind (str_split CSS_MARK p1) (\<lambda>q.
                   bind (index q 0) (\<lambda>html_part. Inr (str_strip html_part))))
              else Inr []) (\<lambda>html.
        bind (if contains CSS_MARK text
              then bind (str_split CSS_MARK text) (\<lambda>css_parts.
                   if length css_parts > 1
                   then bind (index css_parts 1) (\<lambda>c1.
                        bind (str_split END_MARK c1) (\<lambda>e.
                        bind (index e 0) (\<lambda>css_part. Inr (str_strip css_part))))
                   else Inr [])
              else Inr []) (\<lambda>css.
        Inr (html, css))))
      else
        bind (if contains FENCE_HTML text
              then bind (str_split FENCE_HTML text) (\<lambda>a.
                   bind (index a 1) (\<lambda>a1.
                   bind (str_split FENCE a1) (\<lambda>b.
                   bind (index b 0) (\<lambda>h. Inr (str_strip h)))))
              else Inr []) (\<lambda>html.
        bind (if contains FENCE_CSS text
              then bind (str_split FENCE_CSS text) (\<lambda>a.
                   bind (index a 1) (\<lambda>a1.
                   bind (str_split FENCE a1) (\<lambda>b.
                   bind (index b 0) (\<lambda>c. Inr (str_strip c)))))
              else Inr []) (\<lambda>css.
        Inr (html, css))))"


text \<open>
  The extraction rule in the words of the specification: everything strictly between
  two markers is the text after the first occurrence of the opening marker, up to the
  first occurrence of the closing marker that follows (through the end of the text when
  no closing marker follows).
\<close>

definition spec_between :: "string \<Rightarrow> string \<Rightarrow> string \<Rightarrow> string" where
  "spec_between a b s = before_first b (after_first a s)"

definition spec_parse_markers :: "string \<Rightarrow> string \<times> string" where
  "spec_parse_markers text =
     (str_strip (spec_between HTML_MARK CSS_MARK text),
      str_strip (spec_between CSS_MARK END_MARK text))"

section \<open>The colour similarity scorer (services/gemini.py, calculate_color_similarity)\<close>

subsection \<open>The builtin \<open>int(s, 16)\<close>\<close>

text \<open>
  The value of one hexadecimal digit, \<open>None\<close> for any other character.
\<close>

definition hex_digit_value :: "char \<Rightarrow> nat option" where
  "hex_digit_value c =
     (let n = (of_char c :: nat)
      in if 48 \<le> n \<and> n \<le> 57 then Some (n - 48)
         else if 97 \<le> n \<and> n \<le> 102 then Some (n - 87)
         else if 65 \<le> n \<and> n \<le> 70 then Some (n - 55)
         else None)"

text \<open>
  The whitespace \<open>int\<close> skips around a literal: TAB, LF, VT, FF, CR and the space, and
  the two whitespace characters above 127 (0x85, 0xA0), which it first turns into a space.
\<close>

definition int_space :: "char \<Rightarrow> bool" where
  "int_space c =
     (let n = (of_char c :: nat)
      in (9 \<le> n \<and> n \<le> 13) \<or> n = 32 \<or> n = 133 \<or> n = 160)"

text \<open>
  The digit loop: it consumes hexadecimal digits and underscores, fails on two
  underscores in a row and on a trailing underscore, and returns the value read with
  the rest of the string. \<open>prev\<close> is the character consumed last.
\<close>

fun scan_digits :: "nat \<Rightarrow> char \<Rightarrow> string \<Rightarrow> (nat \<times> string) option" where
  "scan_digits acc prev [] = (if prev = CHR ''_'' then None else Some (acc, []))"
| "scan_digits acc prev (c # cs) =
     (if c = CHR ''_'' then (if prev = CHR ''_'' then None else scan_digits acc c cs)
      else (case hex_digit_value c of
              Some d \<Rightarrow> scan_digits (16 * acc + d) c cs
            | None \<Rightarrow> if prev = CHR ''_'' then None else Some (acc, c # cs)))"

text \<open>
  \<open>int(s, 16)\<close>: leading whitespace, an optional sign, an optional prefix \<open>0x\<close> or \<open>0X\<close>
  (which one underscore may follow), at least one digit, with single underscores allowed
  between digits, and trailing whitespace; anything else raises \<open>ValueError\<close>.
\<close>

definition py_int16 :: "string \<Rightarrow> py_error + int" where
  "py_int16 s =
     (let t1 = dropWhile int_space s;
          neg = (case t1 of c # cs \<Rightarrow> c = CHR ''-'' | [] \<Rightarrow> False);
          t2 = (case t1 of c # cs \<Rightarrow> if c = CHR ''+'' \<or> c = CHR ''-'' then cs else t1
                | [] \<Rightarrow> []);
          t3 = (case t2 of
                  a # b # cs \<Rightarrow>
                    if a = CHR ''0'' \<and> (b = CHR ''x'' \<or> b = CHR ''X'')
                    then (case cs of u # us \<Rightarrow> if u = CHR ''_'' then us else cs | [] \<Rightarrow> [])
                    else t2
                | _ \<Rightarrow> t2)
      in case t3 of
           [] \<Rightarrow> Inl ValueError
         | c # _ \<Rightarrow>
             if hex_digit_value c = None then Inl ValueError
             else (case scan_digits 0 (CHR 0x00) t3 of
                     None \<Rightarrow> Inl ValueError
                   | Some (v, rest) \<Rightarrow>
                       if dropWhile int_space rest = []
                       then Inr (if neg then - int v else int v)
                       else Inl ValueError))"

subsection \<open>The scorer\<close>

text \<open>
  \<open>hex_to_rgb\<close>: strip every leading \<open>#\<close>, then read the slices \<open>[0:2]\<close>, \<open>[2:4]\<close> and
  \<open>[4:6]\<close> in this order. A slice never raises; it is shorter, or empty, when the string
  is short.
\<close>

definition slice2 :: "string \<Rightarrow> nat \<Rightarrow> string" where
  "slice2 s i = take 2 (drop i s)"

definition hex_to_rgb :: "string \<Rightarrow> py_error + int list" where
  "hex_to_rgb hex_color =
     (let h = lstrip_hash hex_color
      in bind (py_int16 (slice2 h 0)) (\<lambda>r.
         bind (py_int16 (slice2 h 2)) (\<lambda>g.
         bind (py_int16 (slice2 h 4)) (\<lambda>b. Inr [r, g, b]))))"

text \<open>
  Floating-point numbers are idealised as real numbers: \<open>x ** 0.5\<close> is the square root,
  division and subtraction are exact, and \<open>round(x, 3)\<close> rounds to the nearest multiple of
  1/1000, a tie going to the even one.
\<close>

definition py_round :: "real \<Rightarrow> nat \<Rightarrow> real" where
  "py_round x ndigits =
     (let y = x * 10 ^ ndigits; f = \<lfloor>y\<rfloor>; r = y - of_int f
      in of_int (if r < 1 / 2 then f else if 1 / 2 < r then f + 1
                 else if even f then f else f + 1) / 10 ^ ndigits)"

definition sum_sq :: "int list \<Rightarrow> int list \<Rightarrow> int" where
  "sum_sq rgb1 rgb2 = sum_list (map (\<lambda>(a, b). (a - b) ^ 2) (zip rgb1 rgb2))"

definition max_distance :: real where
  "max_distance = sqrt (255 ^ 2 * 3)"

text \<open>
  The body of the \<open>try\<close> block, and the function with its handler: \<open>ValueError\<close> and
  \<open>IndexError\<close> are caught and give \<open>0.0\<close>; any other exception would propagate.
\<close>

definition similarity_body :: "string \<Rightarrow> string \<Rightarrow> py_error + real" where
  "similarity_body color1 color2 =
     bind (hex_to_rgb color1) (\<lambda>rgb1.
     bind (hex_to_rgb color2) (\<lambda>rgb2.
       let distance = sqrt (real_of_int (sum_sq rgb1 rgb2));
           similarity = 1 - distance / max_distance
       in Inr (py_round similarity 3)))"

definition calculate_color_similarity :: "string \<Rightarrow> string \<Rightarrow> py_error + real" where
  "calculate_color_similarity color1 color2 =
     (case similarity_body color1 color2 of
        Inl e \<Rightarrow> if e = ValueError \<or> e = IndexError then Inr 0 else Inl e
      | Inr v \<Rightarrow> Inr v)"

subsection \<open>Well-formed colours, in the words of the specification\<close>

text \<open>
  A valid colour is six hexadecimal digits, with or without one leading \<open>#\<close>; its
  channels are the values of the three pairs of digits.
\<close>

definition hex_digit :: "char \<Rightarrow> bool" where
  "hex_digit c = (hex_digit_value c \<noteq> None)"

definition hex_body :: "string \<Rightarrow> string" where
  "hex_body s = (case s of c # cs \<Rightarrow> if c = CHR ''#'' then cs else s | [] \<Rightarrow> [])"

definition valid_hex :: "string \<Rightarrow> bool" where
  "valid_hex s = (length (hex_body s) = 6 \<and> list_all hex_digit (hex_body s))"

definition digit_of :: "char \<Rightarrow> nat" where
  "digit_of c = (case hex_digit_value c of Some d \<Rightarrow> d | None \<Rightarrow> 0)"

definition spec_rgb :: "string \<Rightarrow> int list" where
  "spec_rgb s =
     map (\<lambda>i. int (16 * digit_of (hex_body s ! i) + digit_of (hex_body s ! Suc i))) [0, 2, 4]"

definition spec_similarity :: "string \<Rightarrow> string \<Rightarrow> real" where
  "spec_similarity a b =
     py_round (1 - sqrt (real_of_int (sum_sq (spec_rgb a) (spec_rgb b))) / sqrt (255 ^ 2 * 3)) 3"

text \<open>
  A string the parse certainly rejects: after the leading \<open>#\<close>s fewer than five
  characters are left, or one of the first six is neither a hexadecimal digit, a sign
  nor whitespace.
\<close>

definition int_char :: "char \<Rightarrow> bool" where
  "int_char c = (hex_digit c \<or> c = CHR ''+'' \<or> c = CHR ''-'' \<or> is_space c)"

definition rejected_hex :: "string \<Rightarrow> bool" where
  "rejected_hex s =
     (let h = lstrip_hash s in length h < 5 \<or> \<not> list_all int_char (take 6 h))"

section \<open>The brand schema (schemas/brand.py)\<close>

text \<open>
  One record per model class, with the fields in the order of the source. The field
  \<open>text\<close> of \<open>BrandColors\<close> and of \<open>ButtonStyle\<close> is written \<open>text_color\<close>. A field of type
  \<open>Optional[str]\<close> is a \<open>string option\<close>, \<open>None\<close> being Python's \<open>None\<close>.
\<close>

record BrandColors =
  primary :: string
  secondary :: "string option"
  accent :: "string option"
  background :: "string option"
  text_color :: "string option"
  palette :: "string list"

record BrandTypography =
  headings :: string
  body :: string
  weights :: "int list"
  base_size :: "string option"
  line_height :: "string option"

record BrandSpacing =
  grid :: string
  margins :: "(string \<times> string) list"
  padding :: "(string \<times> string) list"
  gap :: "string option"

record ButtonStyle =
  bg :: string
  text_color :: string
  border_radius :: string
  padding :: string
  border :: "string option"
  hover_bg :: "string option"

record BrandButtons =
  primary :: "ButtonStyle option"
  secondary :: "ButtonStyle option"
  outline :: "ButtonStyle option"

record BrandData =
  url :: string
  colors :: BrandColors
  typography :: BrandTypography
  spacing :: BrandSpacing
  buttons :: BrandButtons
  logo_url :: "string option"
  favicon_url :: "string option"
  screenshots :: "string list"

record GeneratedCode =
  html :: string
  css :: string
  preview_url :: "string option"
  component_type :: "string option"

text \<open>
  \<open>font_overlap\<close> is \<open>list(fonts1 & fonts2)\<close>: the elements of a set, each once, in an order
  the language does not fix. The field holds that set.
\<close>

record ComparisonMetrics =
  color_similarity :: real
  typography_match :: bool
  font_overlap :: "string set"
  differences :: "string list"

record BrandComparison =
  site1 :: BrandData
  site2 :: BrandData
  comparison :: ComparisonMetrics

text \<open>The defaults of the schema: \<open>BrandSpacing()\<close> and \<open>BrandButtons()\<close>.\<close>

definition BrandSpacing_default :: BrandSpacing where
  "BrandSpacing_default =
     \<lparr>grid = ''8px'', margins = [], BrandSpacing.padding = [], gap = None\<rparr>"

definition BrandButtons_default :: BrandButtons where
  "BrandButtons_default = \<lparr>primary = None, secondary = None, outline = None\<rparr>"

section \<open>CSS variables and the generated code (services/gemini.py)\<close>

definition NL :: string where
  "NL = [CHR 0x0A]"

text \<open>
  \<open>_brand_to_css_variables\<close>. The tests \<open>if brand.colors.secondary:\<close> and the like are
  truth tests of an \<open>Optional[str]\<close>: they fail for \<open>None\<close> and for the empty string. The
  test \<open>if brand.buttons.primary:\<close> is on a model object, which is true whenever it is not
  \<open>None\<close>.
\<close>

definition brand_to_css_variables :: "BrandData \<Rightarrow> string" where
  "brand_to_css_variables brand =
     (let css_vars = [];
          css_vars = css_vars @ [''  --color-primary: '' @ BrandColors.primary (colors brand) @ '';''];
          css_vars = (case BrandColors.secondary (colors brand) of
                        Some v \<Rightarrow> if v \<noteq> [] then css_vars @ [''  --color-secondary: '' @ v @ '';'']
                                  else css_vars
                      | None \<Rightarrow> css_vars);
          css_vars = (case accent (colors brand) of
                        Some v \<Rightarrow> if v \<noteq> [] then css_vars @ [''  --color-accent: '' @ v @ '';'']
                                  else css_vars
                      | None \<Rightarrow> css_vars);
          css_vars = (case background (colors brand) of
                        Some v \<Rightarrow> if v \<noteq> [] then css_vars @ [''  --color-background: '' @ v @ '';'']
                                  else css_vars
                      | None \<Rightarrow> css_vars);
          css_vars = (case BrandColors.text_color (colors brand) of
                        Some v \<Rightarrow> if v \<noteq> [] then css_vars @ [''  --color-text: '' @ v @ '';'']
                                  else css_vars
                      | None \<Rightarrow> css_vars);
          css_vars = css_vars @ [''  --font-heading: '' @ headings (typography brand) @ '';''];
          css_vars = css_vars @ [''  --font-body: '' @ body (typography brand) @ '';''];
          css_vars = css_vars @ [''  --spacing-grid: '' @ grid (spacing brand) @ '';''];
          css_vars = (case BrandButtons.primary (buttons brand) of
                        Some b \<Rightarrow>
                          css_vars @ [''  --btn-primary-bg: '' @ bg b @ '';'']
                                   @ [''  --btn-primary-text: '' @ ButtonStyle.text_color b @ '';'']
                                   @ [''  --btn-primary-radius: '' @ border_radius b @ '';'']
                      | None \<Rightarrow> css_vars)
      in str_join NL css_vars)"

text \<open>
  \<open>generate_replica\<close> after the call of the model: \<open>response_text\<close> is the text the model
  returned, and \<open>b64\<close> stands for \<open>base64.b64encode(s.encode()).decode()\<close> of the standard
  library. The prompt only goes into the call of the model and is left out.
\<close>

definition generate_replica ::
  "(string \<Rightarrow> string) \<Rightarrow> BrandData \<Rightarrow> string \<Rightarrow> string \<Rightarrow> py_error + GeneratedCode" where
  "generate_replica b64 brand_data component response_text =
     (let css_variables = brand_to_css_variables brand_data
      in bind (parse_response response_text) (\<lambda>(html_part, css_part).
         let full_css = '':root {'' @ NL @ css_variables @ NL @ ''}'' @ NL @ NL @ css_part;
             preview_html =
               ''<!DOCTYPE html>'' @ NL @ ''<html>'' @ NL @ ''<head>'' @ NL @
               ''    <meta charset=\"UTF-8\">'' @ NL @
               ''    <meta name=\"viewport\" content=\"width=device-width, initial-scale=1.0\">'' @ NL @
               ''    <style>'' @ full_css @ ''</style>'' @ NL @
               ''</head>'' @ NL @ ''<body>'' @ NL @ html_part @ NL @ ''</body>'' @ NL @ ''</html>'';
             preview = ''data:text/html;base64,'' @ b64 preview_html
         in Inr \<lparr>html = html_part, css = full_css, preview_url = Some preview,
                 component_type = Some component\<rparr>))"

text \<open>
  The synthesized block in the words of the specification: one declaration per entry
  of a fixed table, an optional colour giving a declaration when it is present (a
  non-empty string), and the three button declarations when a primary button exists.
\<close>

definition css_declaration :: "string \<Rightarrow> string \<Rightarrow> string" where
  "css_declaration name v = ''  --'' @ name @ '': '' @ v @ '';''"

definition optional_css_declaration :: "string \<Rightarrow> string option \<Rightarrow> string list" where
  "optional_css_declaration name v =
     (case v of Some s \<Rightarrow> if s = [] then [] else [css_declaration name s] | None \<Rightarrow> [])"

definition spec_declarations :: "BrandData \<Rightarrow> string list" where
  "spec_declarations brand =
     [css_declaration ''color-primary'' (BrandColors.primary (colors brand))]
     @ optional_css_declaration ''color-secondary'' (BrandColors.secondary (colors brand))
     @ optional_css_declaration ''color-accent'' (accent (colors brand))
     @ optional_css_declaration ''color-background'' (background (colors brand))
     @ optional_css_declaration ''color-text'' (BrandColors.text_color (colors brand))
     @ [css_declaration ''font-heading'' (headings (typography brand)),
        css_declaration ''font-body'' (body (typography brand)),
        css_declaration ''spacing-grid'' (grid (spacing brand))]
     @ (case BrandButtons.primary (buttons brand) of
          None \<Rightarrow> []
        | Some b \<Rightarrow> [css_declaration ''btn-primary-bg'' (bg b),
                     css_declaration ''btn-primary-text'' (ButtonStyle.text_color b),
                     css_declaration ''btn-primary-radius'' (border_radius b)])"

section \<open>The brand comparator (tools.py, compare_brands)\<close>

text \<open>
  \<open>ComparisonMetrics(...)\<close> validates its field \<open>color_similarity\<close>, declared with
  \<open>ge=0, le=1\<close>, and raises \<open>ValidationError\<close> outside that range.
\<close>

definition ComparisonMetrics_validate ::
  "real \<Rightarrow> bool \<Rightarrow> string set \<Rightarrow> string list \<Rightarrow> py_error + ComparisonMetrics" where
  "ComparisonMetrics_validate cs tm fo ds =
     (if 0 \<le> cs \<and> cs \<le> 1
      then Inr \<lparr>color_similarity = cs, typography_match = tm, font_overlap = fo,
                differences = ds\<rparr>
      else Inl ValidationError)"

text \<open>
  \<open>compare_brands\<close> from line 118 on: \<open>brand1\<close> and \<open>brand2\<close> are the two records the
  extraction returned.
\<close>

definition compare_brands :: "BrandData \<Rightarrow> BrandData \<Rightarrow> py_error + BrandComparison" where
  "compare_brands brand1 brand2 =
     bind (calculate_color_similarity (BrandColors.primary (colors brand1))
             (BrandColors.primary (colors brand2))) (\<lambda>similarity.
     let tm = (str_lower (headings (typography brand1)) = str_lower (headings (typography brand2))
               \<or> str_lower (body (typography brand1)) = str_lower (body (typography brand2)));
         fonts1 = {str_lower (headings (typography brand1)), str_lower (body (typography brand1))};
         fonts2 = {str_lower (headings (typography brand2)), str_lower (body (typography brand2))};
         overlap = fonts1 \<inter> fonts2;
         ds = [];
         ds = (if BrandColors.primary (colors brand1) \<noteq> BrandColors.primary (colors brand2)
               then ds @ [''Primary color: '' @ BrandColors.primary (colors brand1) @ '' vs ''
                          @ BrandColors.primary (colors brand2)]
               else ds);
         ds = (if str_lower (headings (typography brand1)) \<noteq> str_lower (headings (typography brand2))
               then ds @ [''Heading font: '' @ headings (typography brand1) @ '' vs ''
                          @ headings (typography brand2)]
               else ds);
         ds = (if str_lower (body (typography brand1)) \<noteq> str_lower (body (typography brand2))
               then ds @ [''Body font: '' @ body (typography brand1) @ '' vs ''
                          @ body (typography brand2)]
               else ds)
     in bind (ComparisonMetrics_validate similarity tm overlap ds) (\<lambda>metrics.
        Inr \<lparr>site1 = brand1, site2 = brand2, comparison = metrics\<rparr>))"

text \<open>
  Two names are equal case-insensitively when they have the same length and agree
  character by character up to case.
\<close>

definition ci_equal :: "string \<Rightarrow> string \<Rightarrow> bool" where
  "ci_equal a b = list_all2 (\<lambda>x y. lower_char x = lower_char y) a b"

definition primary_color :: "BrandData \<Rightarrow> string" where
  "primary_color brand = BrandColors.primary (colors brand)"

definition heading_font :: "BrandData \<Rightarrow> string" where
  "heading_font brand = headings (typography brand)"

definition body_font :: "BrandData \<Rightarrow> string" where
  "body_font brand = body (typography brand)"

text \<open>A record with the given primary colour and fonts, every other field at its default.\<close>

definition brand_of :: "string \<Rightarrow> string \<Rightarrow> string \<Rightarrow> BrandData" where
  "brand_of p h b =
     \<lparr>url = ''https://example.com'',
      colors = \<lparr>BrandColors.primary = p, BrandColors.secondary = None, accent = None,
                background = None, BrandColors.text_color = None, palette = []\<rparr>,
      typography = \<lparr>headings = h, body = b, weights = [400, 600, 700],
                    base_size = Some ''16px'', line_height = Some ''1.5''\<rparr>,
      spacing = BrandSpacing_default,
      buttons = BrandButtons_default,
      logo_url = None, favicon_url = None, screenshots = []\<rparr>"

section \<open>Brand normalization (services/firecrawl.py, extract_brand)\<close>

subsection \<open>Decoded JSON\<close>

text \<open>
  What \<open>response.json()\<close> returns: \<open>None\<close>, \<open>bool\<close>, \<open>int\<close>, \<open>float\<close> (idealised as a real),
  \<open>str\<close>, \<open>list\<close> and \<open>dict\<close>. A dict is an association list in which a key is looked up with
  \<open>map_of\<close>.
\<close>

datatype json =
  JNull | JBool bool | JInt int | JFloat real | JStr string
  | JArr "json list" | JObj "(string \<times> json) list"

text \<open>\<open>d.get(k, default)\<close>: only a dict has the method.\<close>

definition dict_get :: "json \<Rightarrow> string \<Rightarrow> json \<Rightarrow> py_error + json" where
  "dict_get d k dflt =
     (case d of
        JObj kvs \<Rightarrow> (case map_of kvs k of Some v \<Rightarrow> Inr v | None \<Rightarrow> Inr dflt)
      | _ \<Rightarrow> Inl AttributeError)"

text \<open>\<open>d[k]\<close> for a string key, as the program uses it on a dict.\<close>

definition dict_item :: "json \<Rightarrow> string \<Rightarrow> py_error + json" where
  "dict_item d k =
     (case d of
        JObj kvs \<Rightarrow> (case map_of kvs k of Some v \<Rightarrow> Inr v | None \<Rightarrow> Inl KeyError)
      | _ \<Rightarrow> Inl TypeError)"

text \<open>\<open>k in d\<close> for a string \<open>k\<close>: a key of a dict, an element of a list, a substring of a string.\<close>

definition key_in :: "string \<Rightarrow> json \<Rightarrow> py_error + bool" where
  "key_in k d =
     (case d of
        JObj kvs \<Rightarrow> Inr (map_of kvs k \<noteq> None)
      | JArr xs \<Rightarrow> Inr (JStr k \<in> set xs)
      | JStr s \<Rightarrow> Inr (contains k s)
      | _ \<Rightarrow> Inl TypeError)"

text \<open>The truth value of a decoded value.\<close>

fun truthy :: "json \<Rightarrow> bool" where
  "truthy JNull = False"
| "truthy (JBool b) = b"
| "truthy (JInt i) = (i \<noteq> 0)"
| "truthy (JFloat r) = (r \<noteq> 0)"
| "truthy (JStr s) = (s \<noteq> [])"
| "truthy (JArr xs) = (xs \<noteq> [])"
| "truthy (JObj kvs) = (kvs \<noteq> [])"

subsection \<open>Validation by the schema classes\<close>

text \<open>
  A field of type \<open>str\<close> accepts a string, \<open>Optional[str]\<close> also \<open>None\<close>, \<open>list[str]\<close> a list of
  strings; anything else raises \<open>ValidationError\<close>. A field of type \<open>list[int]\<close> accepts a
  list whose elements are integers or are coerced to one by the validation library;
  \<open>lax\<close> stands for that coercion of a value that is not an \<open>int\<close>.
\<close>

definition validate_str :: "json \<Rightarrow> py_error + string" where
  "validate_str j = (case j of JStr s \<Rightarrow> Inr s | _ \<Rightarrow> Inl ValidationError)"

definition validate_opt_str :: "json \<Rightarrow> py_error + string option" where
  "validate_opt_str j =
     (case j of JNull \<Rightarrow> Inr None | JStr s \<Rightarrow> Inr (Some s) | _ \<Rightarrow> Inl ValidationError)"

fun validate_strs :: "json list \<Rightarrow> py_error + string list" where
  "validate_strs [] = Inr []"
| "validate_strs (j # js) =
     bind (validate_str j) (\<lambda>s. bind (validate_strs js) (\<lambda>ss. Inr (s # ss)))"

definition validate_str_list :: "json \<Rightarrow> py_error + string list" where
  "validate_str_list j = (case j of JArr xs \<Rightarrow> validate_strs xs | _ \<Rightarrow> Inl ValidationError)"

definition validate_int :: "(json \<Rightarrow> int option) \<Rightarrow> json \<Rightarrow> py_error + int" where
  "validate_int lax j =
     (case j of
        JInt i \<Rightarrow> Inr i
      | _ \<Rightarrow> (case lax j of Some i \<Rightarrow> Inr i | None \<Rightarrow> Inl ValidationError))"

fun validate_ints :: "(json \<Rightarrow> int option) \<Rightarrow> json list \<Rightarrow> py_error + int list" where
  "validate_ints lax [] = Inr []"
| "validate_ints lax (j # js) =
     bind (validate_int lax j) (\<lambda>i. bind (validate_ints lax js) (\<lambda>is. Inr (i # is)))"

definition validate_int_list :: "(json \<Rightarrow> int option) \<Rightarrow> json \<Rightarrow> py_error + int list" where
  "validate_int_list lax j =
     (case j of JArr xs \<Rightarrow> validate_ints lax xs | _ \<Rightarrow> Inl ValidationError)"

text \<open>A validation that coerces nothing: only integers pass as \<open>int\<close>.\<close>

definition no_coercion :: "json \<Rightarrow> int option" where
  "no_coercion j = None"

text \<open>The constructor calls of \<open>extract_brand\<close>, with the defaults of the fields not passed.\<close>

definition BrandColors_new ::
  "json \<Rightarrow> json \<Rightarrow> json \<Rightarrow> json \<Rightarrow> json \<Rightarrow> json \<Rightarrow> py_error + BrandColors" where
  "BrandColors_new p s a b t pal =
     bind (validate_str p) (\<lambda>p'.
     bind (validate_opt_str s) (\<lambda>s'.
     bind (validate_opt_str a) (\<lambda>a'.
     bind (validate_opt_str b) (\<lambda>b'.
     bind (validate_opt_str t) (\<lambda>t'.
     bind (validate_str_list pal) (\<lambda>pal'.
     Inr \<lparr>BrandColors.primary = p', BrandColors.secondary = s', accent = a',
          background = b', BrandColors.text_color = t', palette = pal'\<rparr>))))))"

definition BrandTypography_new ::
  "(json \<Rightarrow> int option) \<Rightarrow> json \<Rightarrow> json \<Rightarrow> json \<Rightarrow> py_error + BrandTypography" where
  "BrandTypography_new lax h b w =
     bind (validate_str h) (\<lambda>h'.
     bind (validate_str b) (\<lambda>b'.
     bind (validate_int_list lax w) (\<lambda>w'.
     Inr \<lparr>headings = h', body = b', weights = w', base_size = Some ''16px'',
          line_height = Some ''1.5''\<rparr>)))"

definition ButtonStyle_new :: "json \<Rightarrow> json \<Rightarrow> json \<Rightarrow> json \<Rightarrow> py_error + ButtonStyle" where
  "ButtonStyle_new b t r p =
     bind (validate_str b) (\<lambda>b'.
     bind (validate_str t) (\<lambda>t'.
     bind (validate_str r) (\<lambda>r'.
     bind (validate_str p) (\<lambda>p'.
     Inr \<lparr>bg = b', text_color = t', border_radius = r', padding = p', border = None,
          hover_bg = None\<rparr>))))"

definition BrandData_new ::
  "string \<Rightarrow> BrandColors \<Rightarrow> BrandTypography \<Rightarrow> BrandSpacing \<Rightarrow> BrandButtons \<Rightarrow> json \<Rightarrow> json
   \<Rightarrow> json list \<Rightarrow> py_error + BrandData" where
  "BrandData_new u c t s b logo favicon shots =
     bind (validate_opt_str logo) (\<lambda>logo'.
     bind (validate_opt_str favicon) (\<lambda>favicon'.
     bind (validate_strs shots) (\<lambda>shots'.
     Inr \<lparr>url = u, colors = c, typography = t, spacing = s, buttons = b, logo_url = logo',
          favicon_url = favicon', screenshots = shots'\<rparr>)))"

subsection \<open>Building the record\<close>

text \<open>
  Lines 145 to 185 of \<open>extract_brand\<close>: \<open>extracted\<close> is the raw payload and \<open>screenshots\<close> the
  list collected before.
\<close>

definition normalize ::
  "(json \<Rightarrow> int option) \<Rightarrow> string \<Rightarrow> json \<Rightarrow> json list \<Rightarrow> py_error + BrandData" where
  "normalize lax u extracted shots =
     bind (dict_get extracted ''colors'' (JObj [])) (\<lambda>colors_data.
     bind (dict_get colors_data ''primary'' (JStr ''#000000'')) (\<lambda>c_primary.
     bind (dict_get colors_data ''secondary'' JNull) (\<lambda>c_secondary.
     bind (dict_get colors_data ''accent'' JNull) (\<lambda>c_accent.
     bind (dict_get colors_data ''background'' JNull) (\<lambda>c_background.
     bind (dict_get colors_data ''text'' JNull) (\<lambda>c_text.
     bind (dict_get colors_data ''palette'' (JArr [])) (\<lambda>c_palette.
     bind (BrandColors_new c_primary c_secondary c_accent c_background c_text c_palette)
       (\<lambda>colors.
     bind (dict_get extracted ''typography'' (JObj [])) (\<lambda>typo_data.
     bind (dict_get typo_data ''headings'' (JStr ''sans-serif'')) (\<lambda>t_headings.
     bind (dict_get typo_data ''body'' (JStr ''sans-serif'')) (\<lambda>t_body.
     bind (dict_get typo_data ''weights'' (JArr [JInt 400, JInt 600, JInt 700])) (\<lambda>t_weights.
     bind (BrandTypography_new lax t_headings t_body t_weights) (\<lambda>typography.
     let spacing = BrandSpacing_default in
     bind (dict_get extracted ''buttons'' (JObj [])) (\<lambda>buttons_data.
     let buttons = BrandButtons_default in
     bind (dict_get buttons_data ''primary'' JNull) (\<lambda>given.
     bind (if truthy given
           then bind (dict_item buttons_data ''primary'') (\<lambda>btn.
                bind (dict_get btn ''bg'' (JStr (BrandColors.primary colors))) (\<lambda>b_bg.
                bind (dict_get btn ''text'' (JStr ''#ffffff'')) (\<lambda>b_text.
                bind (dict_get btn ''border_radius'' (JStr ''4px'')) (\<lambda>b_radius.
                bind (dict_get btn ''padding'' (JStr ''12px 24px'')) (\<lambda>b_padding.
                bind (ButtonStyle_new b_bg b_text b_radius b_padding) (\<lambda>style.
                Inr (buttons\<lparr>BrandButtons.primary := Some style\<rparr>)))))))
           else Inr buttons) (\<lambda>buttons.
     bind (dict_get extracted ''logo_url'' JNull) (\<lambda>logo.
     bind (dict_get extracted ''favicon_url'' JNull) (\<lambda>favicon.
     BrandData_new u colors typography spacing buttons logo favicon shots))))))))))))))))))"

text \<open>
  Lines 138 to 143 before it: \<open>data\<close> is the decoded response of the extraction service.
\<close>

definition extract_brand_response ::
  "(json \<Rightarrow> int option) \<Rightarrow> string \<Rightarrow> bool \<Rightarrow> json \<Rightarrow> py_error + BrandData" where
  "extract_brand_response lax u include_screenshots data =
     bind (dict_get data ''data'' (JObj [])) (\<lambda>d.
     bind (dict_get d ''extract'' (JObj [])) (\<lambda>extracted.
     bind (if include_screenshots
           then bind (dict_get data ''data'' (JObj [])) (\<lambda>d2.
                bind (key_in ''screenshot'' d2) (\<lambda>present.
                if present
                then bind (dict_item data ''data'') (\<lambda>d3.
                     bind (dict_item d3 ''screenshot'') (\<lambda>shot. Inr [shot]))
                else Inr []))
           else Inr []) (\<lambda>shots.
     normalize lax u extracted shots)))"

subsection \<open>Payloads, in the words of the specification\<close>

text \<open>
  The member \<open>k\<close> of an object, and a payload that omits the field \<open>k\<close> of its section
  \<open>sec\<close>: the section is missing, or it has no such key.
\<close>

definition member :: "json \<Rightarrow> string \<Rightarrow> json option" where
  "member j k = (case j of JObj kvs \<Rightarrow> map_of kvs k | _ \<Rightarrow> None)"

definition omits :: "json \<Rightarrow> string \<Rightarrow> string \<Rightarrow> bool" where
  "omits extracted sec k =
     (case member extracted sec of None \<Rightarrow> True | Some s \<Rightarrow> member s k = None)"

definition spec_payload :: json where
  "spec_payload =
     JObj [(''colors'', JObj [(''primary'', JStr ''#FF0000'')]),
           (''typography'', JObj [(''headings'', JStr ''Arial''), (''body'', JStr ''Helvetica'')])]"

definition button_payload :: json where
  "button_payload =
     JObj [(''colors'', JObj [(''primary'', JStr ''#FF0000'')]),
           (''buttons'', JObj [(''primary'', JObj [(''padding'', JStr ''8px 16px'')])])]"

definition empty_button_payload :: json where
  "empty_button_payload = JObj [(''buttons'', JObj [(''primary'', JObj [])])]"


section \<open>Sequencing of computations that may raise\<close>

lemma bind_Inr [simp]: "bind (Inr x) f = f x"
  by (simp add: bind_def)

lemma bind_Inl [simp]: "bind (Inl e) f = Inl e"
  by (simp add: bind_def)

lemma bind_eq_Inr: "bind m f = Inr y \<longleftrightarrow> (\<exists>x. m = Inr x \<and> f x = Inr y)"
  by (cases m) simp_all

section \<open>Facts about split\<close>

lemma split_ne_first:
  "sep \<noteq> [] \<Longrightarrow>
   split_ne sep s =
     before_first sep s # (if contains sep s then split_ne sep (after_first sep s) else [])"
proof (induction sep s rule: split_ne.induct)
  case (1 sep)
  then show ?case by simp
next
  case (2 sep c cs)
  show ?case
  proof (cases "prefix sep (c # cs)")
    case True
    with "2.prems" show ?thesis by simp
  next
    case False
    with "2.prems" "2.IH"(2) show ?thesis by simp
  qed
qed

lemma before_first_absent: "\<not> contains sep s \<Longrightarrow> before_first sep s = s"
  by (induction s) auto

lemma split_ne_present:
  "sep \<noteq> [] \<Longrightarrow> contains sep s \<Longrightarrow>
   split_ne sep s = before_first sep s # split_ne sep (after_first sep s)"
  by (simp add: split_ne_first)

lemma split_ne_nonempty: "split_ne sep s \<noteq> []"
  by (induction sep s rule: split_ne.induct) (auto split: list.splits)

lemma split_ne_hd: "sep \<noteq> [] \<Longrightarrow> split_ne sep s ! 0 = before_first sep s"
  by (simp add: split_ne_first)

lemma split_ne_snd:
  "sep \<noteq> [] \<Longrightarrow> contains sep s \<Longrightarrow>
   1 < length (split_ne sep s) \<and>
   split_ne sep s ! 1 = before_first sep (after_first sep s)"
proof -
  assume ne: "sep \<noteq> []" and c: "contains sep s"
  have "split_ne sep (after_first sep s) \<noteq> []" by (rule split_ne_nonempty)
  then obtain p ps where ps: "split_ne sep (after_first sep s) = p # ps"
    by (cases "split_ne sep (after_first sep s)") auto
  have "p = before_first sep (after_first sep s)"
    using split_ne_first [OF ne, of "after_first sep s"] ps by simp
  with ps split_ne_present [OF ne c] show ?thesis by simp
qed

section \<open>What the parser returns\<close>

lemma marker_nonempty [simp]:
  "HTML_MARK \<noteq> []" "CSS_MARK \<noteq> []" "END_MARK \<noteq> []"
  "FENCE \<noteq> []" "FENCE_HTML \<noteq> []" "FENCE_CSS \<noteq> []"
  by (simp_all add: HTML_MARK_def CSS_MARK_def END_MARK_def FENCE_def FENCE_HTML_def
      FENCE_CSS_def)

lemma parse_response_primary:
  assumes "contains HTML_MARK text" and "contains CSS_MARK text"
  shows "parse_response text =
           Inr (str_strip (before_first CSS_MARK (before_first HTML_MARK
                  (after_first HTML_MARK text))),
                str_strip (before_first END_MARK (before_first CSS_MARK
                  (after_first CSS_MARK text))))"
proof -
  have h: "split_ne HTML_MARK text ! 1 = before_first HTML_MARK (after_first HTML_MARK text)"
    and hl: "1 < length (split_ne HTML_MARK text)"
    using split_ne_snd [of HTML_MARK "text"] assms(1) by simp_all
  have c: "split_ne CSS_MARK text ! 1 = before_first CSS_MARK (after_first CSS_MARK text)"
    and cl: "1 < length (split_ne CSS_MARK text)"
    using split_ne_snd [of CSS_MARK "text"] assms(2) by simp_all
  show ?thesis
    using assms h hl c cl
    by (simp add: parse_response_def str_split_def bind_def index_def split_ne_hd
        split_ne_nonempty)
qed

lemma parse_response_fallback:
  assumes "\<not> (contains HTML_MARK text \<and> contains CSS_MARK text)"
  shows "parse_response text =
           Inr (if contains FENCE_HTML text
                then str_strip (before_first FENCE (before_first FENCE_HTML
                       (after_first FENCE_HTML text)))
                else [],
                if contains FENCE_CSS text
                then str_strip (before_first FENCE (before_first FENCE_CSS
                       (after_first FENCE_CSS text)))
                else [])"
proof -
  have h: "contains FENCE_HTML text \<Longrightarrow>
      split_ne FENCE_HTML text ! 1 = before_first FENCE_HTML (after_first FENCE_HTML text)
      \<and> 1 < length (split_ne FENCE_HTML text)"
    using split_ne_snd [of FENCE_HTML "text"] by simp
  have c: "contains FENCE_CSS text \<Longrightarrow>
      split_ne FENCE_CSS text ! 1 = before_first FENCE_CSS (after_first FENCE_CSS text)
      \<and> 1 < length (split_ne FENCE_CSS text)"
    using split_ne_snd [of FENCE_CSS "text"] by simp
  have cond: "(contains HTML_MARK text \<and> contains CSS_MARK text) = False"
    using assms by simp
  show ?thesis
    unfolding parse_response_def cond if_False
    using h c
    by (cases "contains FENCE_HTML text"; cases "contains FENCE_CSS text")
       (simp_all add: str_split_def bind_def index_def split_ne_hd split_ne_nonempty)
qed

lemma parse_response_returns: "\<exists>html css. parse_response text = Inr (html, css)"
proof (cases "contains HTML_MARK text \<and> contains CSS_MARK text")
  case True
  then show ?thesis using parse_response_primary [of "text"] by blast
next
  case False
  then show ?thesis using parse_response_fallback [of "text"] by blast
qed

section \<open>Occurrences of a marker\<close>

lemma ex_le_Suc: "(\<exists>i\<le>Suc n. P i) \<longleftrightarrow> P 0 \<or> (\<exists>j\<le>n. P (Suc j))"
  by (metis Suc_le_mono le0 not0_implies_Suc)

lemma contains_iff: "contains sep s \<longleftrightarrow> (\<exists>i\<le>length s. prefix sep (drop i s))"
proof (induction s)
  case Nil
  show ?case by simp
next
  case (Cons c cs)
  show ?case by (simp add: ex_le_Suc Cons.IH del: Cons_prefix_Cons)
qed

lemma occurrences_mem:
  "i \<in> set (occurrences sep s) \<longleftrightarrow> i \<le> length s \<and> prefix sep (drop i s)"
  by (auto simp add: occurrences_def less_Suc_eq_le simp del: upt_Suc)

lemma occurrences_single:
  "occurrences sep s = [k] \<Longrightarrow> i \<le> length s \<Longrightarrow> prefix sep (drop i s) \<Longrightarrow> i = k"
  using occurrences_mem [of i sep s] by simp

lemma before_first_prefix: "prefix sep s \<Longrightarrow> before_first sep s = []"
  by (cases s) simp_all

lemma after_first_prefix: "prefix sep s \<Longrightarrow> after_first sep s = drop (length sep) s"
  by (cases s) simp_all

lemma first_at:
  "\<forall>i<length p. \<not> prefix sep (drop i (p @ sep @ r)) \<Longrightarrow>
   before_first sep (p @ sep @ r) = p \<and> after_first sep (p @ sep @ r) = r"
proof (induction p)
  case Nil
  show ?case by (simp add: before_first_prefix after_first_prefix)
next
  case (Cons c p)
  from Cons.prems have 0: "\<not> prefix sep (c # p @ sep @ r)" by force
  from Cons.prems have "\<forall>i<length p. \<not> prefix sep (drop i (p @ sep @ r))" by force
  with Cons.IH 0 show ?case by simp
qed

lemma once_split:
  assumes occ: "occurrences sep (p @ sep @ r) = [length p]" and ne: "sep \<noteq> []"
  shows "before_first sep (p @ sep @ r) = p" and "after_first sep (p @ sep @ r) = r"
    and "\<not> contains sep r" and "contains sep (p @ sep @ r)"
proof -
  have "\<forall>i<length p. \<not> prefix sep (drop i (p @ sep @ r))"
  proof (intro allI impI notI)
    fix i assume lt: "i < length p" and pre: "prefix sep (drop i (p @ sep @ r))"
    from lt have le: "i \<le> length (p @ sep @ r)" by simp
    from occurrences_single [OF occ le pre] have "i = length p" .
    with lt show False by simp
  qed
  from first_at [OF this] show "before_first sep (p @ sep @ r) = p"
    and "after_first sep (p @ sep @ r) = r" by simp_all
  show "\<not> contains sep r"
  proof
    assume "contains sep r"
    then obtain i where i: "i \<le> length r" "prefix sep (drop i r)"
      unfolding contains_iff by blast
    have d: "drop (length p + length sep + i) (p @ sep @ r) = drop i r" by simp
    from i(1) have le: "length p + length sep + i \<le> length (p @ sep @ r)" by simp
    from i(2) d have pre: "prefix sep (drop (length p + length sep + i) (p @ sep @ r))"
      by (simp only:)
    from occurrences_single [OF occ le pre] have "length p + length sep + i = length p" .
    with ne show False by simp
  qed
  have "prefix sep (drop (length p) (p @ sep @ r))" by simp
  moreover have "length p \<le> length (p @ sep @ r)" by simp
  ultimately show "contains sep (p @ sep @ r)"
    unfolding contains_iff by blast
qed

lemma no_early_occurrence:
  assumes "\<not> contains sep (b @ butlast sep)" and "sep \<noteq> []"
  shows "\<forall>i<length b. \<not> prefix sep (drop i (b @ sep @ t))"
proof (intro allI impI notI)
  fix i assume lt: "i < length b" and pre: "prefix sep (drop i (b @ sep @ t))"
  from lt have d: "drop i (b @ sep @ t) = (drop i b @ butlast sep) @ [last sep] @ t"
    using assms(2) by simp
  have "length sep \<le> length (drop i b @ butlast sep)" using lt assms(2)
    by (simp add: Suc_leI le_diff_conv2)
  with pre d have "prefix sep (drop i b @ butlast sep)"
    by (metis prefix_length_prefix prefixI)
  then have "prefix sep (drop i (b @ butlast sep))" using lt by simp
  moreover have "i \<le> length (b @ butlast sep)" using lt by simp
  ultimately have "contains sep (b @ butlast sep)" unfolding contains_iff by blast
  with assms(1) show False by simp
qed

lemma before_first_at:
  "\<not> contains sep (b @ butlast sep) \<Longrightarrow> sep \<noteq> [] \<Longrightarrow> before_first sep (b @ sep @ t) = b"
  using first_at [OF no_early_occurrence] by simp

lemma parse_markers_once_aux:
  assumes t: "text = pre @ HTML_MARK @ mid @ CSS_MARK @ post"
    and oh: "occurrences HTML_MARK text = [length pre]"
    and oc: "occurrences CSS_MARK text = [length pre + length HTML_MARK + length mid]"
  shows "parse_response text = Inr (str_strip mid, str_strip (before_first END_MARK post))"
proof -
  let ?R = "mid @ CSS_MARK @ post"
  have oh': "occurrences HTML_MARK (pre @ HTML_MARK @ ?R) = [length pre]"
    using oh t by simp
  have h1: "after_first HTML_MARK text = ?R" and h2: "\<not> contains HTML_MARK ?R"
    and h3: "contains HTML_MARK text"
    using once_split [OF oh'] t by simp_all
  have oc': "occurrences CSS_MARK ((pre @ HTML_MARK @ mid) @ CSS_MARK @ post)
               = [length (pre @ HTML_MARK @ mid)]"
    using oc t by simp
  have c1: "after_first CSS_MARK text = post" and c2: "\<not> contains CSS_MARK post"
    and c3: "contains CSS_MARK text"
    using once_split [OF oc'] t by simp_all
  have "\<forall>i<length mid. \<not> prefix CSS_MARK (drop i ?R)"
  proof (intro allI impI notI)
    fix i assume lt: "i < length mid" and p: "prefix CSS_MARK (drop i ?R)"
    have d: "drop (length pre + length HTML_MARK + i) text = drop i ?R" using t by simp
    have le: "length pre + length HTML_MARK + i \<le> length text" using lt t by simp
    from p d have p': "prefix CSS_MARK (drop (length pre + length HTML_MARK + i) text)"
      by (simp only:)
    from occurrences_single [OF oc le p'] lt show False by simp
  qed
  from first_at [OF this] have m: "before_first CSS_MARK ?R = mid" by simp
  show ?thesis
    by (simp only: parse_response_primary [OF h3 c3] h1 c1 before_first_absent [OF h2]
        before_first_absent [OF c2] m)
qed

section \<open>Facts about the similarity scorer\<close>

lemma hex_digit_value_props:
  assumes "hex_digit_value c = Some d"
  shows "d < 16" and "\<not> int_space c" and "c \<noteq> CHR ''+''" and "c \<noteq> CHR ''-''"
    and "c \<noteq> CHR ''_''" and "c \<noteq> CHR ''x''" and "c \<noteq> CHR ''X''" and "c \<noteq> CHR ''#''"
  using assms
  by (auto simp add: hex_digit_value_def int_space_def Let_def split: if_splits)

lemma py_int16_two_digits:
  assumes a: "hex_digit_value a = Some x" and b: "hex_digit_value b = Some y"
  shows "py_int16 [a, b] = Inr (int (16 * x + y))"
  using hex_digit_value_props [OF a] hex_digit_value_props [OF b] a b
  by (simp add: py_int16_def)

lemma py_int16_error: "py_int16 s = Inl e \<Longrightarrow> e = ValueError"
  by (auto simp add: py_int16_def Let_def split: list.splits if_splits option.splits)

lemma hex_to_rgb_error: "hex_to_rgb s = Inl e \<Longrightarrow> e = ValueError"
  by (auto simp add: hex_to_rgb_def Let_def bind_def split: sum.splits dest: py_int16_error)


lemma length_six: "length h = 6 \<Longrightarrow> \<exists>a b c d e f. h = [a, b, c, d, e, f]"
  by (auto simp add: numeral_eq_Suc length_Suc_conv)

lemma lstrip_hash_valid: "valid_hex s \<Longrightarrow> lstrip_hash s = hex_body s"
proof -
  assume v: "valid_hex s"
  then obtain a b c d e f where h: "hex_body s = [a, b, c, d, e, f]"
    using length_six [of "hex_body s"] by (auto simp add: valid_hex_def)
  from v h have "hex_digit a" by (simp add: valid_hex_def)
  then have na: "a \<noteq> CHR ''#''"
    using hex_digit_value_props(8) [of a] by (auto simp add: hex_digit_def)
  show ?thesis
  proof (cases s)
    case Nil
    with h show ?thesis by (simp add: hex_body_def)
  next
    case (Cons x xs)
    show ?thesis
    proof (cases "x = CHR ''#''")
      case True
      with Cons h have "xs = [a, b, c, d, e, f]" by (simp add: hex_body_def)
      with Cons True na show ?thesis by (simp add: hex_body_def lstrip_hash_def)
    next
      case False
      with Cons show ?thesis by (simp add: hex_body_def lstrip_hash_def)
    qed
  qed
qed

lemma hex_digit_SomeE: "hex_digit c \<Longrightarrow> \<exists>d. hex_digit_value c = Some d"
  by (cases "hex_digit_value c") (simp_all add: hex_digit_def)

lemma hex_to_rgb_valid:
  assumes v: "valid_hex s"
  shows "hex_to_rgb s = Inr (spec_rgb s)"
    and "length (spec_rgb s) = 3"
    and "\<forall>x \<in> set (spec_rgb s). 0 \<le> x \<and> x \<le> 255"
proof -
  from v obtain a b c d e f where h: "hex_body s = [a, b, c, d, e, f]"
    using length_six [of "hex_body s"] by (auto simp add: valid_hex_def)
  from v h obtain va vb vc vd ve vf where
    d: "hex_digit_value a = Some va" "hex_digit_value b = Some vb"
       "hex_digit_value c = Some vc" "hex_digit_value d = Some vd"
       "hex_digit_value e = Some ve" "hex_digit_value f = Some vf"
    using hex_digit_SomeE [of a] hex_digit_SomeE [of b] hex_digit_SomeE [of c]
      hex_digit_SomeE [of d] hex_digit_SomeE [of e] hex_digit_SomeE [of f]
    by (auto simp add: valid_hex_def)
  show "hex_to_rgb s = Inr (spec_rgb s)"
    using h d
    by (simp add: hex_to_rgb_def lstrip_hash_valid [OF v] slice2_def spec_rgb_def
        py_int16_two_digits digit_of_def)
  show "length (spec_rgb s) = 3" by (simp add: spec_rgb_def)
  have "va < 16" "vb < 16" "vc < 16" "vd < 16" "ve < 16" "vf < 16"
    using d hex_digit_value_props(1) by blast+
  then show "\<forall>x \<in> set (spec_rgb s). 0 \<le> x \<and> x \<le> 255"
    using h d by (simp add: spec_rgb_def digit_of_def)
qed

lemma sq_bound:
  fixes a b :: int
  assumes "0 \<le> a" "a \<le> 255" "0 \<le> b" "b \<le> 255"
  shows "(a - b) ^ 2 \<le> 255 ^ 2"
proof -
  have "\<bar>a - b\<bar> \<le> \<bar>255\<bar>" using assms by simp
  then show ?thesis by (simp only: abs_le_square_iff)
qed

lemma length_three: "length h = 3 \<Longrightarrow> \<exists>a b c. h = [a, b, c]"
  by (auto simp add: numeral_eq_Suc length_Suc_conv)

lemma sum_sq_bounds:
  assumes "length xs = 3" "length ys = 3"
    and "\<forall>x \<in> set xs. 0 \<le> x \<and> x \<le> 255" and "\<forall>y \<in> set ys. 0 \<le> y \<and> y \<le> 255"
  shows "0 \<le> sum_sq xs ys" and "sum_sq xs ys \<le> 255 ^ 2 * 3"
proof -
  from assms(1) obtain a b c where xs: "xs = [a, b, c]" using length_three by blast
  from assms(2) obtain d e f where ys: "ys = [d, e, f]" using length_three by blast
  show "0 \<le> sum_sq xs ys" by (simp add: xs ys sum_sq_def)
  have "(a - d) ^ 2 \<le> 255 ^ 2" "(b - e) ^ 2 \<le> 255 ^ 2" "(c - f) ^ 2 \<le> 255 ^ 2"
    using sq_bound [of a d] sq_bound [of b e] sq_bound [of c f] assms(3,4) xs ys
    by simp_all
  then show "sum_sq xs ys \<le> 255 ^ 2 * 3" by (simp add: xs ys sum_sq_def)
qed

lemma sum_sq_commute: "sum_sq xs ys = sum_sq ys xs"
  unfolding sum_sq_def
proof (induction xs arbitrary: ys)
  case Nil
  show ?case by simp
next
  case (Cons x xs)
  show ?case by (cases ys) (simp_all add: Cons.IH power2_commute)
qed

lemma sum_sq_same: "sum_sq xs xs = 0"
  by (induction xs) (simp_all add: sum_sq_def)

lemma py_round_unit:
  assumes "0 \<le> x" "x \<le> 1"
  shows "0 \<le> py_round x 3" and "py_round x 3 \<le> 1"
proof -
  define y where "y = x * 10 ^ 3"
  define f where "f = \<lfloor>y\<rfloor>"
  define k where "k = (if y - of_int f < 1 / 2 then f else if 1 / 2 < y - of_int f then f + 1
                       else if even f then f else f + 1)"
  have r: "py_round x 3 = of_int k / 10 ^ 3"
    by (simp add: py_round_def Let_def y_def f_def k_def)
  have y0: "0 \<le> y" and y1: "y \<le> 1000" using assms by (simp_all add: y_def)
  have f0: "0 \<le> f" using y0 by (simp add: f_def)
  have f1: "f \<le> 1000" using y1 by (simp add: f_def floor_le_iff)
  have "f = 1000 \<Longrightarrow> y - of_int f < 1 / 2"
  proof -
    assume e: "f = 1000"
    have "of_int f \<le> y" by (simp add: f_def)
    with e y1 have "y = 1000" by simp
    with e show ?thesis by simp
  qed
  then have "k \<le> 1000"
  proof (cases "f = 1000")
    case True
    then have "y - of_int f < 1 / 2" by fact
    then have "k = f" by (simp add: k_def)
    with True show ?thesis by simp
  next
    case False
    with f1 have "f + 1 \<le> 1000" by simp
    moreover have "k \<le> f + 1" by (simp add: k_def)
    ultimately show ?thesis by simp
  qed
  moreover have "f \<le> k" by (simp add: k_def)
  ultimately have "0 \<le> k \<and> k \<le> 1000" using f0 by simp
  then show "0 \<le> py_round x 3" and "py_round x 3 \<le> 1" by (simp_all add: r)
qed

lemma py_round_ints: "py_round 1 3 = 1" "py_round 0 3 = 0"
  by (simp_all add: py_round_def)

lemma ratio_unit:
  assumes "0 \<le> n" "n \<le> 255 ^ 2 * 3"
  shows "0 \<le> 1 - sqrt (real_of_int n) / max_distance"
    and "1 - sqrt (real_of_int n) / max_distance \<le> 1"
proof -
  have m: "0 < max_distance" by (simp add: max_distance_def)
  have "real_of_int n \<le> real_of_int (255 ^ 2 * 3)"
    using assms(2) by (simp only: of_int_le_iff)
  then have "real_of_int n \<le> 255 ^ 2 * 3" by simp
  then have "sqrt (real_of_int n) \<le> max_distance"
    unfolding max_distance_def by (rule real_sqrt_le_mono)
  with m have "sqrt (real_of_int n) / max_distance \<le> 1" by simp
  then show "0 \<le> 1 - sqrt (real_of_int n) / max_distance" by simp
  have "0 \<le> sqrt (real_of_int n) / max_distance" using m assms(1) by simp
  then show "1 - sqrt (real_of_int n) / max_distance \<le> 1" by simp
qed

lemma similarity_body_Inr:
  "hex_to_rgb a = Inr x \<Longrightarrow> hex_to_rgb b = Inr y \<Longrightarrow>
   calculate_color_similarity a b =
     Inr (py_round (1 - sqrt (real_of_int (sum_sq x y)) / max_distance) 3)"
  by (simp add: calculate_color_similarity_def similarity_body_def)

lemma similarity_body_Inl:
  "hex_to_rgb a = Inl e \<or> hex_to_rgb b = Inl e' \<Longrightarrow> calculate_color_similarity a b = Inr 0"
proof -
  assume "hex_to_rgb a = Inl e \<or> hex_to_rgb b = Inl e'"
  then have "similarity_body a b = Inl ValueError"
    by (cases "hex_to_rgb a"; cases "hex_to_rgb b")
       (auto simp add: similarity_body_def dest: hex_to_rgb_error)
  then show ?thesis by (simp add: calculate_color_similarity_def)
qed

lemma similarity_returns: "\<exists>v. calculate_color_similarity a b = Inr v"
proof (cases "hex_to_rgb a")
  case (Inl e)
  then show ?thesis using similarity_body_Inl [of a e b] by simp
next
  case a: (Inr x)
  show ?thesis
  proof (cases "hex_to_rgb b")
    case (Inl e)
    then show ?thesis using similarity_body_Inl [of a _ b e] by simp
  next
    case (Inr y)
    with a show ?thesis by (simp add: similarity_body_Inr)
  qed
qed

lemma similarity_valid_range:
  assumes "valid_hex a" and "valid_hex b"
  shows "\<exists>v. calculate_color_similarity a b = Inr v \<and> 0 \<le> v \<and> v \<le> 1 \<and>
             v = spec_similarity a b"
proof -
  note pa = hex_to_rgb_valid [OF assms(1)]
  note pb = hex_to_rgb_valid [OF assms(2)]
  let ?n = "sum_sq (spec_rgb a) (spec_rgb b)"
  let ?x = "1 - sqrt (real_of_int ?n) / max_distance"
  have n: "0 \<le> ?n" "?n \<le> 255 ^ 2 * 3"
    using sum_sq_bounds [OF pa(2) pb(2) pa(3) pb(3)] by simp_all
  have r: "calculate_color_similarity a b = Inr (py_round ?x 3)"
    using pa(1) pb(1) by (rule similarity_body_Inr)
  have "0 \<le> py_round ?x 3" "py_round ?x 3 \<le> 1"
    using py_round_unit [OF ratio_unit [OF n]] by simp_all
  moreover have "py_round ?x 3 = spec_similarity a b"
    by (simp add: spec_similarity_def max_distance_def)
  ultimately show ?thesis using r by simp
qed

lemma int_space_is_space: "int_space c \<Longrightarrow> is_space c"
  by (auto simp add: int_space_def is_space_def Let_def)

lemma py_int16_empty: "py_int16 [] = Inl ValueError"
  by (simp add: py_int16_def)

lemma py_int16_one: "py_int16 [a] = Inr v \<Longrightarrow> hex_digit a"
  by (auto simp add: py_int16_def Let_def hex_digit_def split: if_splits)

lemma py_int16_two: "py_int16 [a, b] = Inr v \<Longrightarrow> int_char a \<and> int_char b"
  by (auto simp add: py_int16_def Let_def hex_digit_def int_char_def
      dest: int_space_is_space split: if_splits option.splits)

lemma py_int16_short:
  assumes "py_int16 t = Inr v" and "length t \<le> 2"
  shows "t \<noteq> [] \<and> list_all int_char t"
proof (cases t)
  case Nil
  with assms(1) show ?thesis by (simp add: py_int16_empty)
next
  case a: (Cons a u)
  show ?thesis
  proof (cases u)
    case Nil
    with a assms(1) have "hex_digit a" using py_int16_one by simp
    with a Nil show ?thesis by (simp add: int_char_def)
  next
    case (Cons b w)
    with a assms(2) have "w = []" by simp
    with a Cons assms(1) show ?thesis using py_int16_two [of a b v] by simp
  qed
qed

lemma take_six: "take 6 h = slice2 h 0 @ slice2 h 2 @ slice2 h 4"
proof -
  have "take (2 + (2 + 2)) h = take 2 h @ take 2 (drop 2 h) @ take 2 (drop (2 + 2) h)"
    by (simp only: take_add drop_drop)
  then show ?thesis by (simp add: slice2_def)
qed

lemma hex_to_rgb_rejected:
  assumes "rejected_hex s"
  shows "hex_to_rgb s = Inl ValueError"
proof (cases "hex_to_rgb s")
  case (Inl e)
  then show ?thesis using hex_to_rgb_error by simp
next
  case (Inr rgb)
  let ?h = "lstrip_hash s"
  from Inr obtain r g b where
    p: "py_int16 (slice2 ?h 0) = Inr r" "py_int16 (slice2 ?h 2) = Inr g"
       "py_int16 (slice2 ?h 4) = Inr b"
    by (auto simp add: hex_to_rgb_def Let_def bind_def split: sum.splits)
  have l: "length (slice2 ?h 0) \<le> 2" "length (slice2 ?h 2) \<le> 2" "length (slice2 ?h 4) \<le> 2"
    by (simp_all add: slice2_def)
  note k = py_int16_short [OF p(1) l(1)] py_int16_short [OF p(2) l(2)]
    py_int16_short [OF p(3) l(3)]
  from k(3) have "4 < length ?h" by (simp add: slice2_def)
  moreover from k have "list_all int_char (take 6 ?h)" by (simp add: take_six)
  ultimately have "\<not> rejected_hex s" by (simp add: rejected_hex_def Let_def)
  with assms show ?thesis by simp
qed


section \<open>Facts about the CSS variables and the comparator\<close>

lemma brand_to_css_variables_spec:
  "brand_to_css_variables brand = str_join NL (spec_declarations brand)"
  by (simp add: brand_to_css_variables_def spec_declarations_def css_declaration_def
      optional_css_declaration_def Let_def split: option.splits)

lemma contains_middle: "contains sub (a @ sub @ b)"
proof -
  have "prefix sub (drop (length a) (a @ sub @ b))" by simp
  moreover have "length a \<le> length (a @ sub @ b)" by simp
  ultimately show ?thesis unfolding contains_iff by blast
qed

lemma str_join_first: "\<exists>rest. str_join sep (x # xs) = x @ rest"
  by (cases xs) simp_all

lemma ci_equal_lower: "ci_equal a b \<longleftrightarrow> str_lower a = str_lower b"
  unfolding ci_equal_def str_lower_def
proof (induction a arbitrary: b)
  case Nil
  show ?case by auto
next
  case (Cons x a)
  show ?case by (cases b) (simp_all add: Cons.IH)
qed

lemma compare_brands_Inr:
  assumes "compare_brands a b = Inr r"
  shows "typography_match (comparison r)
           = (ci_equal (heading_font a) (heading_font b) \<or> ci_equal (body_font a) (body_font b))"
    and "font_overlap (comparison r)
           = {str_lower (heading_font a), str_lower (body_font a)}
             \<inter> {str_lower (heading_font b), str_lower (body_font b)}"
    and "differences (comparison r)
           = (if primary_color a = primary_color b then []
              else [''Primary color: '' @ primary_color a @ '' vs '' @ primary_color b])
             @ (if ci_equal (heading_font a) (heading_font b) then []
                else [''Heading font: '' @ heading_font a @ '' vs '' @ heading_font b])
             @ (if ci_equal (body_font a) (body_font b) then []
                else [''Body font: '' @ body_font a @ '' vs '' @ body_font b])"
proof -
  obtain v where v: "calculate_color_similarity (primary_color a) (primary_color b) = Inr v"
    using similarity_returns by blast
  from assms v have ok: "0 \<le> v \<and> v \<le> 1"
    by (auto simp add: compare_brands_def primary_color_def ComparisonMetrics_validate_def
        Let_def bind_def split: if_splits)
  from assms v ok show "typography_match (comparison r)
           = (ci_equal (heading_font a) (heading_font b) \<or> ci_equal (body_font a) (body_font b))"
    by (auto simp add: compare_brands_def primary_color_def heading_font_def body_font_def
        ComparisonMetrics_validate_def Let_def ci_equal_lower)
  from assms v ok show "font_overlap (comparison r)
           = {str_lower (heading_font a), str_lower (body_font a)}
             \<inter> {str_lower (heading_font b), str_lower (body_font b)}"
    by (auto simp add: compare_brands_def primary_color_def heading_font_def body_font_def
        ComparisonMetrics_validate_def Let_def)
  from assms v ok show "differences (comparison r)
           = (if primary_color a = primary_color b then []
              else [''Primary color: '' @ primary_color a @ '' vs '' @ primary_color b])
             @ (if ci_equal (heading_font a) (heading_font b) then []
                else [''Heading font: '' @ heading_font a @ '' vs '' @ heading_font b])
             @ (if ci_equal (body_font a) (body_font b) then []
                else [''Body font: '' @ body_font a @ '' vs '' @ body_font b])"
    by (auto simp add: compare_brands_def primary_color_def heading_font_def body_font_def
        ComparisonMetrics_validate_def Let_def ci_equal_lower)
qed

lemma compare_brands_returns:
  assumes "valid_hex (primary_color a)" and "valid_hex (primary_color b)"
  shows "\<exists>r. compare_brands a b = Inr r"
proof -
  from similarity_valid_range [OF assms] obtain v where
    "calculate_color_similarity (primary_color a) (primary_color b) = Inr v" "0 \<le> v" "v \<le> 1"
    by blast
  then show ?thesis
    by (simp add: compare_brands_def primary_color_def ComparisonMetrics_validate_def Let_def)
qed


section \<open>Facts about normalization\<close>

lemma dict_get_omits:
  assumes "omits e sec k" and "dict_get e sec (JObj []) = Inr s" and "dict_get s k dflt = Inr v"
  shows "v = dflt"
proof (cases "member e sec")
  case None
  with assms(2) have "s = JObj []"
    by (auto simp add: member_def dict_get_def split: json.splits option.splits)
  with assms(3) show ?thesis by (simp add: dict_get_def)
next
  case (Some s')
  with assms(2) have "s = s'"
    by (auto simp add: member_def dict_get_def split: json.splits option.splits)
  with Some assms(1) have "member s k = None" by (simp add: omits_def)
  with assms(3) show ?thesis
    by (auto simp add: member_def dict_get_def split: json.splits option.splits)
qed

lemma validate_str_JStr: "validate_str (JStr s) = Inr x \<longleftrightarrow> x = s"
  by (auto simp add: validate_str_def)

lemma validate_default_weights:
  "validate_int_list lax (JArr [JInt 400, JInt 600, JInt 700]) = Inr [400, 600, 700]"
  by (simp add: validate_int_list_def validate_int_def)

lemma normalize_Inr:
  assumes "normalize lax u extracted shots = Inr brand"
  shows "\<exists>cd cp. dict_get extracted ''colors'' (JObj []) = Inr cd \<and>
           dict_get cd ''primary'' (JStr ''#000000'') = Inr cp \<and>
           validate_str cp = Inr (BrandColors.primary (colors brand))"
    and "\<exists>td th tb tw. dict_get extracted ''typography'' (JObj []) = Inr td \<and>
           dict_get td ''headings'' (JStr ''sans-serif'') = Inr th \<and>
           validate_str th = Inr (headings (typography brand)) \<and>
           dict_get td ''body'' (JStr ''sans-serif'') = Inr tb \<and>
           validate_str tb = Inr (body (typography brand)) \<and>
           dict_get td ''weights'' (JArr [JInt 400, JInt 600, JInt 700]) = Inr tw \<and>
           validate_int_list lax tw = Inr (weights (typography brand))"
    and "spacing brand = BrandSpacing_default"
    and "base_size (typography brand) = Some ''16px''"
    and "line_height (typography brand) = Some ''1.5''"
    and "url brand = u"
  using assms
  by (auto simp add: normalize_def bind_eq_Inr Let_def BrandColors_new_def
      BrandTypography_new_def BrandData_new_def)

lemma normalize_buttons:
  assumes "normalize lax u extracted shots = Inr brand"
  shows "\<exists>bd given. dict_get extracted ''buttons'' (JObj []) = Inr bd \<and>
           dict_get bd ''primary'' JNull = Inr given \<and>
           (if truthy given
            then (\<exists>btn b t r p style.
                    dict_item bd ''primary'' = Inr btn \<and>
                    dict_get btn ''bg'' (JStr (BrandColors.primary (colors brand))) = Inr b \<and>
                    dict_get btn ''text'' (JStr ''#ffffff'') = Inr t \<and>
                    dict_get btn ''border_radius'' (JStr ''4px'') = Inr r \<and>
                    dict_get btn ''padding'' (JStr ''12px 24px'') = Inr p \<and>
                    ButtonStyle_new b t r p = Inr style \<and>
                    buttons brand = BrandButtons_default\<lparr>BrandButtons.primary := Some style\<rparr>)
            else buttons brand = BrandButtons_default)"
  using assms
  by (auto simp add: normalize_def bind_eq_Inr Let_def BrandColors_new_def
      BrandTypography_new_def BrandData_new_def split: if_splits)

lemma dict_get_member:
  "member d k = Some v \<Longrightarrow> dict_get d k dflt = Inr w \<Longrightarrow> w = v"
  by (auto simp add: member_def dict_get_def split: json.splits option.splits)

lemma dict_item_member:
  "member d k = Some v \<Longrightarrow> dict_item d k = Inr w \<Longrightarrow> w = v"
  by (auto simp add: member_def dict_item_def split: json.splits option.splits)

lemma dict_get_absent: "map_of kvs k = None \<Longrightarrow> dict_get (JObj kvs) k dflt = Inr dflt"
  by (simp add: dict_get_def)

lemma ButtonStyle_new_Inr:
  assumes "ButtonStyle_new b t r p = Inr style"
  shows "validate_str b = Inr (bg style)" and "validate_str t = Inr (ButtonStyle.text_color style)"
    and "validate_str r = Inr (border_radius style)"
    and "validate_str p = Inr (ButtonStyle.padding style)"
  using assms by (auto simp add: ButtonStyle_new_def bind_eq_Inr)

section \<open>Claims about the parser\<close>

text \<open>
  C9. A response in which the markers \<open>---HTML---\<close> and \<open>---CSS---\<close> are not both present
  and which has no fenced block tagged \<open>html\<close> or \<open>css\<close> (neither tag occurs in it) parses
  to an empty \<open>html\<close> and an empty \<open>css\<close>; the parser returns and raises nothing.
\<close>

theorem parse_no_markers_no_fences:
  assumes "\<not> (contains HTML_MARK text \<and> contains CSS_MARK text)"
    and "\<not> contains FENCE_HTML text" and "\<not> contains FENCE_CSS text"
  shows "parse_response text = Inr ([], [])"
  using assms by (simp add: parse_response_fallback)

theorem parse_no_markers_no_fences_witness:
  "\<not> (contains HTML_MARK ''Sorry, no code.'' \<and> contains CSS_MARK ''Sorry, no code.'') \<and>
   \<not> contains FENCE_HTML ''Sorry, no code.'' \<and> \<not> contains FENCE_CSS ''Sorry, no code.'' \<and>
   parse_response ''Sorry, no code.'' = Inr ([], [])"
proof -
  have a: "\<not> (contains HTML_MARK ''Sorry, no code.'' \<and> contains CSS_MARK ''Sorry, no code.'')"
    by (simp add: HTML_MARK_def CSS_MARK_def)
  have b: "\<not> contains FENCE_HTML ''Sorry, no code.''" by (simp add: FENCE_HTML_def)
  have c: "\<not> contains FENCE_CSS ''Sorry, no code.''" by (simp add: FENCE_CSS_def)
  show ?thesis using a b c parse_no_markers_no_fences [OF a b c] by simp
qed

text \<open>
  C1, as stated, fails when a marker occurs more than once: \<open>parts[1]\<close> of the split at
  \<open>---HTML---\<close> ends at the next \<open>---HTML---\<close>, so for the response below the program
  returns \<open>a\<close> as html, while the text between the first \<open>---HTML---\<close> and the
  \<open>---CSS---\<close> that follows is \<open>a---HTML---b\<close>.
\<close>

theorem parse_markers_repeated_counterexample:
  "contains HTML_MARK ''---HTML---a---HTML---b---CSS---c---END---'' \<and>
   contains CSS_MARK ''---HTML---a---HTML---b---CSS---c---END---'' \<and>
   parse_response ''---HTML---a---HTML---b---CSS---c---END---'' = Inr (''a'', ''c'') \<and>
   spec_parse_markers ''---HTML---a---HTML---b---CSS---c---END---'' = (''a---HTML---b'', ''c'')"
  by code_simp


text \<open>
  C1 (amended). When \<open>---HTML---\<close> and \<open>---CSS---\<close> each occur exactly once in the
  response, the HTML marker first, the parser returns as html the trimmed text between
  the two markers and as css the trimmed text after \<open>---CSS---\<close> up to the first
  \<open>---END---\<close> that follows; when no \<open>---END---\<close> follows, css is the trimmed text after
  \<open>---CSS---\<close> through the end of the response. The parse returns (no exception).
\<close>

theorem parse_markers_once:
  assumes "text = pre @ HTML_MARK @ mid @ CSS_MARK @ post"
    and "occurrences HTML_MARK text = [length pre]"
    and "occurrences CSS_MARK text = [length pre + length HTML_MARK + length mid]"
  shows "\<exists>css. parse_response text = Inr (str_strip mid, css) \<and>
           (\<not> contains END_MARK post \<longrightarrow> css = str_strip post) \<and>
           (\<forall>body tail. post = body @ END_MARK @ tail \<and>
                \<not> contains END_MARK (body @ butlast END_MARK) \<longrightarrow> css = str_strip body)"
proof (intro exI conjI allI impI)
  show "parse_response text = Inr (str_strip mid, str_strip (before_first END_MARK post))"
    using assms by (rule parse_markers_once_aux)
next
  assume "\<not> contains END_MARK post"
  then show "str_strip (before_first END_MARK post) = str_strip post"
    by (simp add: before_first_absent)
next
  fix body tail
  assume "post = body @ END_MARK @ tail \<and> \<not> contains END_MARK (body @ butlast END_MARK)"
  then show "str_strip (before_first END_MARK post) = str_strip body"
    by (simp add: before_first_at)
qed

theorem parse_markers_once_witness:
  "parse_response ''---HTML---\<newline><div>Hi</div>\<newline>---CSS---\<newline>.x{color:red}\<newline>---END---''
     = Inr (''<div>Hi</div>'', ''.x{color:red}'')"
proof -
  let ?t = "''---HTML---\<newline><div>Hi</div>\<newline>---CSS---\<newline>.x{color:red}\<newline>---END---''"
  let ?mid = "''\<newline><div>Hi</div>\<newline>''"
  let ?post = "''\<newline>.x{color:red}\<newline>---END---''"
  let ?body = "''\<newline>.x{color:red}\<newline>''"
  have a: "?t = [] @ HTML_MARK @ ?mid @ CSS_MARK @ ?post"
    by (simp add: HTML_MARK_def CSS_MARK_def)
  have b: "occurrences HTML_MARK ?t = [length ([] :: string)]" by code_simp
  have c: "occurrences CSS_MARK ?t = [length ([] :: string) + length HTML_MARK + length ?mid]"
    by code_simp
  have d: "?post = ?body @ END_MARK @ []" by (simp add: END_MARK_def)
  have e: "\<not> contains END_MARK (?body @ butlast END_MARK)" by code_simp
  from parse_markers_once [OF a b c] obtain css where
    r: "parse_response ?t = Inr (str_strip ?mid, css) \<and>
        (\<not> contains END_MARK ?post \<longrightarrow> css = str_strip ?post) \<and>
        (\<forall>body tail. ?post = body @ END_MARK @ tail \<and>
            \<not> contains END_MARK (body @ butlast END_MARK) \<longrightarrow> css = str_strip body)" ..
  from r have "?post = ?body @ END_MARK @ [] \<and>
      \<not> contains END_MARK (?body @ butlast END_MARK) \<longrightarrow> css = str_strip ?body"
    by (elim conjE allE)
  with d e have "css = str_strip ?body" by (simp only: simp_thms)
  with r have "parse_response ?t = Inr (str_strip ?mid, str_strip ?body)" by (simp only:)
  moreover have "str_strip ?mid = ''<div>Hi</div>''" by code_simp
  moreover have "str_strip ?body = ''.x{color:red}''" by code_simp
  ultimately show ?thesis by simp
qed


text \<open>
  C8, as stated, fails: a response with \<open>---HTML---\<close> but without \<open>---CSS---\<close> makes the
  condition of the \<open>if\<close> false, so the \<open>else\<close> branch with the fenced-block fallback runs
  and a block tagged \<open>html\<close> is extracted.
\<close>

theorem parse_html_marker_only_counterexample:
  "contains HTML_MARK ''---HTML---```html<p>Hi</p>```'' \<and>
   \<not> contains CSS_MARK ''---HTML---```html<p>Hi</p>```'' \<and>
   parse_response ''---HTML---```html<p>Hi</p>```'' = Inr (''<p>Hi</p>'', [])"
  by code_simp


text \<open>
  C8 (amended). For a response in which the two markers are not both present, in
  particular one that contains \<open>---HTML---\<close> but not \<open>---CSS---\<close>, the parser takes the
  fenced-block fallback: html is the trimmed text after the first tag \<open>```html\<close> up to the
  next fence when that tag occurs and empty otherwise, and css likewise for the tag
  \<open>```css\<close>.
\<close>

theorem parse_html_marker_only:
  assumes "\<not> (contains HTML_MARK text \<and> contains CSS_MARK text)"
  shows "parse_response text =
           Inr (if contains FENCE_HTML text
                then str_strip (before_first FENCE (before_first FENCE_HTML
                       (after_first FENCE_HTML text)))
                else [],
                if contains FENCE_CSS text
                then str_strip (before_first FENCE (before_first FENCE_CSS
                       (after_first FENCE_CSS text)))
                else [])"
  using assms by (rule parse_response_fallback)

theorem parse_html_marker_only_witness:
  "contains HTML_MARK ''---HTML---<b>x</b>'' \<and> \<not> contains CSS_MARK ''---HTML---<b>x</b>'' \<and>
   parse_response ''---HTML---<b>x</b>'' = Inr ([], [])"
proof -
  have a: "contains HTML_MARK ''---HTML---<b>x</b>''" by code_simp
  have b: "\<not> contains CSS_MARK ''---HTML---<b>x</b>''" by code_simp
  have c: "\<not> contains FENCE_HTML ''---HTML---<b>x</b>''" by code_simp
  have d: "\<not> contains FENCE_CSS ''---HTML---<b>x</b>''" by code_simp
  from b have e: "\<not> (contains HTML_MARK ''---HTML---<b>x</b>'' \<and>
      contains CSS_MARK ''---HTML---<b>x</b>'')" by simp
  show ?thesis using a b parse_html_marker_only [OF e] c d by simp
qed

section \<open>Claims about the similarity scorer\<close>

text \<open>
  C2. For two valid colours (six hexadecimal digits, with or without a leading \<open>#\<close>)
  \<open>calculate_color_similarity\<close> returns a value in [0,1], equal to 1 minus the Euclidean
  distance of the two RGB triples divided by \<open>sqrt (255\<^sup>2 * 3)\<close>, rounded to three decimal
  places; a valid colour compared with itself gives 1, and \<open>#000000\<close> against \<open>#FFFFFF\<close>
  gives 0.
\<close>

theorem similarity_valid_hex:
  assumes "valid_hex a" and "valid_hex b"
  shows "(\<exists>v. calculate_color_similarity a b = Inr v \<and> 0 \<le> v \<and> v \<le> 1 \<and>
              v = spec_similarity a b) \<and>
         calculate_color_similarity a a = Inr 1 \<and>
         calculate_color_similarity ''#000000'' ''#FFFFFF'' = Inr 0"
proof (intro conjI)
  show "\<exists>v. calculate_color_similarity a b = Inr v \<and> 0 \<le> v \<and> v \<le> 1 \<and>
      v = spec_similarity a b"
    using assms by (rule similarity_valid_range)
  note pa = hex_to_rgb_valid [OF assms(1)]
  show "calculate_color_similarity a a = Inr 1"
    using similarity_body_Inr [OF pa(1) pa(1)] by (simp add: sum_sq_same py_round_ints)
  have k: "hex_to_rgb ''#000000'' = Inr [0, 0, 0]" by code_simp
  have w: "hex_to_rgb ''#FFFFFF'' = Inr [255, 255, 255]" by code_simp
  have "sqrt (real_of_int (sum_sq [0, 0, 0] [255, 255, 255])) / max_distance = 1"
    by (simp add: sum_sq_def max_distance_def)
  then show "calculate_color_similarity ''#000000'' ''#FFFFFF'' = Inr 0"
    using similarity_body_Inr [OF k w] by (simp add: py_round_ints)
qed

theorem similarity_valid_hex_witness:
  "valid_hex ''#FF0000'' \<and> valid_hex ''ff1111'' \<and>
   (\<exists>v. calculate_color_similarity ''#FF0000'' ''ff1111'' = Inr v \<and> 0 \<le> v \<and> v \<le> 1) \<and>
   calculate_color_similarity ''#FF0000'' ''#FF0000'' = Inr 1"
proof -
  have a: "valid_hex ''#FF0000''" by code_simp
  have b: "valid_hex ''ff1111''" by code_simp
  from similarity_valid_hex [OF a b] a b show ?thesis by blast
qed

text \<open>
  C10. The scorer is symmetric in its two arguments, whether they parse or not.
\<close>

theorem similarity_symmetric:
  "calculate_color_similarity a b = calculate_color_similarity b a"
proof (cases "hex_to_rgb a")
  case (Inl e)
  then show ?thesis
    using similarity_body_Inl [of a e b] similarity_body_Inl [of b _ a e] by simp
next
  case a: (Inr x)
  show ?thesis
  proof (cases "hex_to_rgb b")
    case (Inl e)
    then show ?thesis
      using similarity_body_Inl [of a _ b e] similarity_body_Inl [of b e a] by simp
  next
    case (Inr y)
    with a show ?thesis
      by (simp add: similarity_body_Inr sum_sq_commute [of x y])
  qed
qed

text \<open>
  C7, as stated, fails for a string of the wrong length: the slices of a short or long
  string do not raise, so \<open>#FFFFF\<close> (five digits) is read as the triple (255, 255, 15)
  and compared with itself gives 1, not 0.
\<close>

theorem similarity_wrong_length_counterexample:
  "\<not> valid_hex ''#FFFFF'' \<and> calculate_color_similarity ''#FFFFF'' ''#FFFFF'' = Inr 1"
proof -
  have v: "\<not> valid_hex ''#FFFFF''" by code_simp
  have p: "hex_to_rgb ''#FFFFF'' = Inr [255, 255, 15]" by code_simp
  show ?thesis using v similarity_body_Inr [OF p p] by (simp add: sum_sq_same py_round_ints)
qed

text \<open>
  C7 (amended). \<open>calculate_color_similarity\<close> never raises, for any two strings. It
  returns 0 whenever \<open>hex_to_rgb\<close> fails on either colour, which is the case in particular
  when, after the leading \<open>#\<close>s, fewer than five characters are left or one of the first
  six characters is neither a hexadecimal digit, a sign nor whitespace (as in
  \<open>notacolor\<close>).
\<close>

theorem similarity_fail_soft:
  "(\<exists>v. calculate_color_similarity a b = Inr v) \<and>
   ((\<exists>e. hex_to_rgb a = Inl e) \<or> (\<exists>e. hex_to_rgb b = Inl e) \<longrightarrow>
      calculate_color_similarity a b = Inr 0) \<and>
   (rejected_hex a \<longrightarrow> (\<exists>e. hex_to_rgb a = Inl e)) \<and>
   (rejected_hex a \<or> rejected_hex b \<longrightarrow> calculate_color_similarity a b = Inr 0)"
proof (intro conjI impI)
  show "\<exists>v. calculate_color_similarity a b = Inr v" by (rule similarity_returns)
next
  assume "(\<exists>e. hex_to_rgb a = Inl e) \<or> (\<exists>e. hex_to_rgb b = Inl e)"
  then obtain e e' where "hex_to_rgb a = Inl e \<or> hex_to_rgb b = Inl e'" by blast
  then show "calculate_color_similarity a b = Inr 0" by (rule similarity_body_Inl)
next
  assume "rejected_hex a"
  then show "\<exists>e. hex_to_rgb a = Inl e" using hex_to_rgb_rejected by blast
next
  assume "rejected_hex a \<or> rejected_hex b"
  then have "hex_to_rgb a = Inl ValueError \<or> hex_to_rgb b = Inl ValueError"
    using hex_to_rgb_rejected by blast
  then show "calculate_color_similarity a b = Inr 0" by (rule similarity_body_Inl)
qed

theorem similarity_fail_soft_witness:
  "rejected_hex ''notacolor'' \<and> calculate_color_similarity ''notacolor'' ''#FFFFFF'' = Inr 0"
proof -
  have r: "rejected_hex ''notacolor''" by code_simp
  with similarity_fail_soft [of "''notacolor''" "''#FFFFFF''"] show ?thesis by simp
qed


section \<open>Claims about the generated CSS and the comparator\<close>

text \<open>
  C3. For every brand record and every response of the model, \<open>generate_replica\<close> returns,
  and its css is the block \<open>:root {\<close> ... \<open>}\<close> with the synthesized declarations, a blank
  line, and the parsed CSS body. The block has one declaration per line in the fixed
  order: \<open>--color-primary\<close> always; \<open>--color-secondary\<close>, \<open>--color-accent\<close>,
  \<open>--color-background\<close>, \<open>--color-text\<close> each only when that colour is present (a
  non-empty string); \<open>--font-heading\<close>, \<open>--font-body\<close>, \<open>--spacing-grid\<close>; and the three
  \<open>--btn-primary-*\<close> declarations only when a primary button style exists.
\<close>

theorem generate_replica_css:
  "\<exists>html_part css_part g.
     parse_response response_text = Inr (html_part, css_part) \<and>
     generate_replica b64 brand component response_text = Inr g \<and>
     html g = html_part \<and>
     css g = '':root {'' @ NL @ str_join NL (spec_declarations brand) @ NL @ ''}'' @ NL @ NL
               @ css_part \<and>
     prefix '':root {'' (css g) \<and>
     contains (''--color-primary: '' @ primary_color brand @ '';'') (css g)"
proof -
  obtain h c where p: "parse_response response_text = Inr (h, c)"
    using parse_response_returns by blast
  let ?g = "\<lparr>html = h,
             css = '':root {'' @ NL @ brand_to_css_variables brand @ NL @ ''}'' @ NL @ NL @ c,
             preview_url = Some (''data:text/html;base64,'' @ b64
               (''<!DOCTYPE html>'' @ NL @ ''<html>'' @ NL @ ''<head>'' @ NL @
                ''    <meta charset=\"UTF-8\">'' @ NL @
                ''    <meta name=\"viewport\" content=\"width=device-width, initial-scale=1.0\">'' @ NL @
                ''    <style>'' @ ('':root {'' @ NL @ brand_to_css_variables brand @ NL @ ''}'' @ NL @ NL @ c)
                @ ''</style>'' @ NL @
                ''</head>'' @ NL @ ''<body>'' @ NL @ h @ NL @ ''</body>'' @ NL @ ''</html>'')),
             component_type = Some component\<rparr>"
  have g: "generate_replica b64 brand component response_text = Inr ?g"
    by (simp add: generate_replica_def p Let_def)
  obtain rest where r: "str_join NL (spec_declarations brand)
      = ''  --color-primary: '' @ primary_color brand @ '';'' @ rest"
    using str_join_first [of NL "css_declaration ''color-primary'' (primary_color brand)"]
    by (auto simp add: spec_declarations_def css_declaration_def primary_color_def)
  have "css ?g = ('':root {'' @ NL @ ''  '') @ (''--color-primary: '' @ primary_color brand @ '';'')
      @ (rest @ NL @ ''}'' @ NL @ NL @ c)"
    by (simp add: brand_to_css_variables_spec r)
  then have "contains (''--color-primary: '' @ primary_color brand @ '';'') (css ?g)"
    by (simp only: contains_middle)
  with p g show ?thesis
    by (intro exI [of _ h] exI [of _ c] exI [of _ ?g]) (simp add: brand_to_css_variables_spec)
qed

text \<open>
  C4. Whenever \<open>compare_brands\<close> returns a comparison of two records (it does when both
  primary colours are valid): \<open>typography_match\<close> holds iff the heading fonts are equal
  case-insensitively or the body fonts are; \<open>font_overlap\<close> is the intersection of the
  lowercase font names of the two records; \<open>differences\<close> lists, in this order and each
  only when the values differ, the primary colours (compared exactly), the heading fonts
  and the body fonts (compared case-insensitively, printed as they are).
\<close>

theorem compare_brands_metrics:
  "(valid_hex (primary_color a) \<and> valid_hex (primary_color b) \<longrightarrow>
      (\<exists>r. compare_brands a b = Inr r)) \<and>
   (\<forall>r. compare_brands a b = Inr r \<longrightarrow>
      typography_match (comparison r)
        = (ci_equal (heading_font a) (heading_font b) \<or> ci_equal (body_font a) (body_font b)) \<and>
      font_overlap (comparison r)
        = {str_lower (heading_font a), str_lower (body_font a)}
          \<inter> {str_lower (heading_font b), str_lower (body_font b)} \<and>
      differences (comparison r)
        = (if primary_color a = primary_color b then []
           else [''Primary color: '' @ primary_color a @ '' vs '' @ primary_color b])
          @ (if ci_equal (heading_font a) (heading_font b) then []
             else [''Heading font: '' @ heading_font a @ '' vs '' @ heading_font b])
          @ (if ci_equal (body_font a) (body_font b) then []
             else [''Body font: '' @ body_font a @ '' vs '' @ body_font b]))"
  using compare_brands_returns [of a b] compare_brands_Inr [of a b] by blast

theorem compare_brands_metrics_witness:
  "\<exists>r. compare_brands (brand_of ''#FF0000'' ''Arial'' ''Helvetica'')
          (brand_of ''#00FF00'' ''arial'' ''Georgia'') = Inr r \<and>
       typography_match (comparison r) \<and>
       ''arial'' \<in> font_overlap (comparison r) \<and>
       differences (comparison r)
         = [''Primary color: #FF0000 vs #00FF00'', ''Body font: Helvetica vs Georgia'']"
proof -
  let ?a = "brand_of ''#FF0000'' ''Arial'' ''Helvetica''"
  let ?b = "brand_of ''#00FF00'' ''arial'' ''Georgia''"
  have pa: "primary_color ?a = ''#FF0000''" and pb: "primary_color ?b = ''#00FF00''"
    and ha: "heading_font ?a = ''Arial''" and hb: "heading_font ?b = ''arial''"
    and ba: "body_font ?a = ''Helvetica''" and bb: "body_font ?b = ''Georgia''"
    by (simp_all add: primary_color_def heading_font_def body_font_def brand_of_def)
  have va: "valid_hex (primary_color ?a)" unfolding pa by code_simp
  have vb: "valid_hex (primary_color ?b)" unfolding pb by code_simp
  have h: "ci_equal (heading_font ?a) (heading_font ?b)" unfolding ha hb by code_simp
  have b: "\<not> ci_equal (body_font ?a) (body_font ?b)" unfolding ba bb by code_simp
  have l: "str_lower ''Arial'' = ''arial''" "str_lower ''arial'' = ''arial''" by code_simp+
  note m = compare_brands_metrics [of ?a ?b]
  from m va vb obtain r where r: "compare_brands ?a ?b = Inr r" by blast
  from m r have
    "typography_match (comparison r)
        = (ci_equal (heading_font ?a) (heading_font ?b) \<or> ci_equal (body_font ?a) (body_font ?b))"
    and "font_overlap (comparison r)
        = {str_lower (heading_font ?a), str_lower (body_font ?a)}
          \<inter> {str_lower (heading_font ?b), str_lower (body_font ?b)}"
    and "differences (comparison r)
        = (if primary_color ?a = primary_color ?b then []
           else [''Primary color: '' @ primary_color ?a @ '' vs '' @ primary_color ?b])
          @ (if ci_equal (heading_font ?a) (heading_font ?b) then []
             else [''Heading font: '' @ heading_font ?a @ '' vs '' @ heading_font ?b])
          @ (if ci_equal (body_font ?a) (body_font ?b) then []
             else [''Body font: '' @ body_font ?a @ '' vs '' @ body_font ?b])"
    by blast+
  with h b have "typography_match (comparison r)"
    and "''arial'' \<in> font_overlap (comparison r)"
    and "differences (comparison r)
         = [''Primary color: #FF0000 vs #00FF00'', ''Body font: Helvetica vs Georgia'']"
    by (simp_all add: pa pb ha hb ba bb l)
  with r show ?thesis by blast
qed


section \<open>Claims about normalization\<close>

text \<open>
  C5. Normalization applies the field defaults. The payload with only
  \<open>{"colors": {"primary": "#FF0000"}, "typography": {"headings": "Arial", "body":
  "Helvetica"}}\<close> gives a record with weights [400, 600, 700], grid \<open>8px\<close> and no primary
  button. For every payload from which a record is built: a payload that omits
  \<open>colors.primary\<close> gets \<open>#000000\<close>, one that omits \<open>typography.headings\<close> or
  \<open>typography.body\<close> gets \<open>sans-serif\<close>, one that omits \<open>typography.weights\<close> gets
  [400, 600, 700], and the grid is always \<open>8px\<close>.
\<close>

theorem normalize_defaults:
  "(\<exists>brand. normalize lax u spec_payload [] = Inr brand \<and>
      weights (typography brand) = [400, 600, 700] \<and>
      grid (spacing brand) = ''8px'' \<and>
      BrandButtons.primary (buttons brand) = None) \<and>
   (\<forall>extracted shots brand. normalize lax u extracted shots = Inr brand \<longrightarrow>
      (omits extracted ''colors'' ''primary'' \<longrightarrow>
         BrandColors.primary (colors brand) = ''#000000'') \<and>
      (omits extracted ''typography'' ''headings'' \<longrightarrow>
         headings (typography brand) = ''sans-serif'') \<and>
      (omits extracted ''typography'' ''body'' \<longrightarrow>
         body (typography brand) = ''sans-serif'') \<and>
      (omits extracted ''typography'' ''weights'' \<longrightarrow>
         weights (typography brand) = [400, 600, 700]) \<and>
      grid (spacing brand) = ''8px'')"
proof (intro conjI allI impI)
  have "normalize lax u spec_payload [] =
      Inr ((brand_of ''#FF0000'' ''Arial'' ''Helvetica'')\<lparr>url := u\<rparr>)"
    by (simp add: normalize_def spec_payload_def dict_get_def BrandColors_new_def
        BrandTypography_new_def BrandData_new_def validate_str_def validate_opt_str_def
        validate_str_list_def validate_int_list_def validate_int_def brand_of_def)
  then show "\<exists>brand. normalize lax u spec_payload [] = Inr brand \<and>
      weights (typography brand) = [400, 600, 700] \<and>
      grid (spacing brand) = ''8px'' \<and>
      BrandButtons.primary (buttons brand) = None"
    by (simp add: brand_of_def BrandSpacing_default_def BrandButtons_default_def)
next
  fix extracted shots brand
  assume n: "normalize lax u extracted shots = Inr brand"
  note k = normalize_Inr [OF n]
  show "grid (spacing brand) = ''8px''" using k(3) by (simp add: BrandSpacing_default_def)
  {
    assume o: "omits extracted ''colors'' ''primary''"
    from k(1) obtain cd cp where
      "dict_get extracted ''colors'' (JObj []) = Inr cd"
      "dict_get cd ''primary'' (JStr ''#000000'') = Inr cp"
      and v: "validate_str cp = Inr (BrandColors.primary (colors brand))" by blast
    with o have "cp = JStr ''#000000''" using dict_get_omits by blast
    with v show "BrandColors.primary (colors brand) = ''#000000''"
      by (simp add: validate_str_JStr)
  }
  from k(2) obtain td th tb tw where
    td: "dict_get extracted ''typography'' (JObj []) = Inr td"
    and th: "dict_get td ''headings'' (JStr ''sans-serif'') = Inr th"
      "validate_str th = Inr (headings (typography brand))"
    and tb: "dict_get td ''body'' (JStr ''sans-serif'') = Inr tb"
      "validate_str tb = Inr (body (typography brand))"
    and tw: "dict_get td ''weights'' (JArr [JInt 400, JInt 600, JInt 700]) = Inr tw"
      "validate_int_list lax tw = Inr (weights (typography brand))"
    by blast
  {
    assume o: "omits extracted ''typography'' ''headings''"
    from dict_get_omits [OF o td th(1)] th(2)
    show "headings (typography brand) = ''sans-serif''" by (simp add: validate_str_JStr)
  }
  {
    assume o: "omits extracted ''typography'' ''body''"
    from dict_get_omits [OF o td tb(1)] tb(2)
    show "body (typography brand) = ''sans-serif''" by (simp add: validate_str_JStr)
  }
  {
    assume o: "omits extracted ''typography'' ''weights''"
    from dict_get_omits [OF o td tw(1)] tw(2)
    show "weights (typography brand) = [400, 600, 700]"
      by (simp add: validate_default_weights)
  }
qed

theorem normalize_defaults_witness:
  "omits (JObj []) ''colors'' ''primary'' \<and> omits (JObj []) ''typography'' ''headings'' \<and>
   omits (JObj []) ''typography'' ''body'' \<and> omits (JObj []) ''typography'' ''weights'' \<and>
   normalize no_coercion ''https://example.com'' (JObj []) []
     = Inr (brand_of ''#000000'' ''sans-serif'' ''sans-serif'') \<and>
   BrandColors.primary (colors (brand_of ''#000000'' ''sans-serif'' ''sans-serif'')) = ''#000000'' \<and>
   headings (typography (brand_of ''#000000'' ''sans-serif'' ''sans-serif'')) = ''sans-serif'' \<and>
   body (typography (brand_of ''#000000'' ''sans-serif'' ''sans-serif'')) = ''sans-serif'' \<and>
   weights (typography (brand_of ''#000000'' ''sans-serif'' ''sans-serif'')) = [400, 600, 700] \<and>
   grid (spacing (brand_of ''#000000'' ''sans-serif'' ''sans-serif'')) = ''8px''"
proof -
  let ?b = "brand_of ''#000000'' ''sans-serif'' ''sans-serif''"
  have o: "omits (JObj []) ''colors'' ''primary''" "omits (JObj []) ''typography'' ''headings''"
    "omits (JObj []) ''typography'' ''body''" "omits (JObj []) ''typography'' ''weights''"
    by (simp_all add: omits_def member_def)
  have n: "normalize no_coercion ''https://example.com'' (JObj []) [] = Inr ?b"
    by (simp add: normalize_def dict_get_def BrandColors_new_def
        BrandTypography_new_def BrandData_new_def validate_str_def validate_opt_str_def
        validate_str_list_def validate_int_list_def validate_int_def brand_of_def)
  from normalize_defaults [of no_coercion "''https://example.com''"] have
    "\<forall>extracted shots brand.
       normalize no_coercion ''https://example.com'' extracted shots = Inr brand \<longrightarrow>
      (omits extracted ''colors'' ''primary'' \<longrightarrow>
         BrandColors.primary (colors brand) = ''#000000'') \<and>
      (omits extracted ''typography'' ''headings'' \<longrightarrow>
         headings (typography brand) = ''sans-serif'') \<and>
      (omits extracted ''typography'' ''body'' \<longrightarrow>
         body (typography brand) = ''sans-serif'') \<and>
      (omits extracted ''typography'' ''weights'' \<longrightarrow>
         weights (typography brand) = [400, 600, 700]) \<and>
      grid (spacing brand) = ''8px''" by (rule conjunct2)
  then have "normalize no_coercion ''https://example.com'' (JObj []) [] = Inr ?b \<longrightarrow>
      (omits (JObj []) ''colors'' ''primary'' \<longrightarrow>
         BrandColors.primary (colors ?b) = ''#000000'') \<and>
      (omits (JObj []) ''typography'' ''headings'' \<longrightarrow>
         headings (typography ?b) = ''sans-serif'') \<and>
      (omits (JObj []) ''typography'' ''body'' \<longrightarrow>
         body (typography ?b) = ''sans-serif'') \<and>
      (omits (JObj []) ''typography'' ''weights'' \<longrightarrow>
         weights (typography ?b) = [400, 600, 700]) \<and>
      grid (spacing ?b) = ''8px''" by (elim allE)
  with n o show ?thesis by (simp only: simp_thms)
qed

text \<open>
  C6, as stated, fails for an empty \<open>buttons.primary\<close> object: the guard
  \<open>if buttons_data.get("primary"):\<close> is a truth test, false for \<open>{}\<close>, so no button style
  is built and \<open>buttons.primary\<close> stays \<open>None\<close>.
\<close>

theorem normalize_empty_button_counterexample:
  "member empty_button_payload ''buttons'' = Some (JObj [(''primary'', JObj [])]) \<and>
   member (JObj [(''primary'', JObj [])]) ''primary'' = Some (JObj []) \<and>
   normalize no_coercion ''https://example.com'' empty_button_payload []
     = Inr (brand_of ''#000000'' ''sans-serif'' ''sans-serif'') \<and>
   BrandButtons.primary (buttons (brand_of ''#000000'' ''sans-serif'' ''sans-serif'')) = None"
  by (simp add: normalize_def empty_button_payload_def member_def dict_get_def BrandColors_new_def
      BrandTypography_new_def BrandData_new_def validate_str_def
      validate_opt_str_def validate_str_list_def validate_int_list_def validate_int_def
      brand_of_def BrandButtons_default_def)

text \<open>
  C6 (amended). For every payload with a non-empty \<open>buttons.primary\<close> object from which
  a record is built, the primary button style exists; its background is the brand's
  primary colour when \<open>bg\<close> is missing, its text colour \<open>#ffffff\<close> when \<open>text\<close> is missing, its
  border radius \<open>4px\<close> and its padding \<open>12px 24px\<close> when those are missing.
\<close>

theorem normalize_primary_button:
  assumes n: "normalize lax u extracted shots = Inr brand"
    and mb: "member extracted ''buttons'' = Some bd"
    and mp: "member bd ''primary'' = Some (JObj kvs)"
    and ne: "kvs \<noteq> []"
  shows "\<exists>style. BrandButtons.primary (buttons brand) = Some style \<and>
           (map_of kvs ''bg'' = None \<longrightarrow> bg style = BrandColors.primary (colors brand)) \<and>
           (map_of kvs ''text'' = None \<longrightarrow> ButtonStyle.text_color style = ''#ffffff'') \<and>
           (map_of kvs ''border_radius'' = None \<longrightarrow> border_radius style = ''4px'') \<and>
           (map_of kvs ''padding'' = None \<longrightarrow> ButtonStyle.padding style = ''12px 24px'')"
proof -
  from normalize_buttons [OF n] obtain bd' given where
    g: "dict_get extracted ''buttons'' (JObj []) = Inr bd'"
       "dict_get bd' ''primary'' JNull = Inr given"
    and c: "if truthy given
            then (\<exists>btn b t r p style.
                    dict_item bd' ''primary'' = Inr btn \<and>
                    dict_get btn ''bg'' (JStr (BrandColors.primary (colors brand))) = Inr b \<and>
                    dict_get btn ''text'' (JStr ''#ffffff'') = Inr t \<and>
                    dict_get btn ''border_radius'' (JStr ''4px'') = Inr r \<and>
                    dict_get btn ''padding'' (JStr ''12px 24px'') = Inr p \<and>
                    ButtonStyle_new b t r p = Inr style \<and>
                    buttons brand = BrandButtons_default\<lparr>BrandButtons.primary := Some style\<rparr>)
            else buttons brand = BrandButtons_default"
    by blast
  have bd': "bd' = bd" using dict_get_member [OF mb g(1)] .
  have given: "given = JObj kvs" using dict_get_member [OF mp] g(2) bd' by simp
  with ne have "truthy given" by simp
  with c obtain btn b t r p style where
    i: "dict_item bd' ''primary'' = Inr btn"
    and d: "dict_get btn ''bg'' (JStr (BrandColors.primary (colors brand))) = Inr b"
       "dict_get btn ''text'' (JStr ''#ffffff'') = Inr t"
       "dict_get btn ''border_radius'' (JStr ''4px'') = Inr r"
       "dict_get btn ''padding'' (JStr ''12px 24px'') = Inr p"
    and s: "ButtonStyle_new b t r p = Inr style"
    and bs: "buttons brand = BrandButtons_default\<lparr>BrandButtons.primary := Some style\<rparr>"
    by auto
  have btn: "btn = JObj kvs" using dict_item_member [OF mp] i bd' by simp
  note v = ButtonStyle_new_Inr [OF s]
  have f1: "BrandButtons.primary (buttons brand) = Some style" by (simp add: bs)
  have f2: "map_of kvs ''bg'' = None \<longrightarrow> bg style = BrandColors.primary (colors brand)"
    using d(1) v(1) by (auto simp add: btn dict_get_absent validate_str_JStr)
  have f3: "map_of kvs ''text'' = None \<longrightarrow> ButtonStyle.text_color style = ''#ffffff''"
    using d(2) v(2) by (auto simp add: btn dict_get_absent validate_str_JStr)
  have f4: "map_of kvs ''border_radius'' = None \<longrightarrow> border_radius style = ''4px''"
    using d(3) v(3) by (auto simp add: btn dict_get_absent validate_str_JStr)
  have f5: "map_of kvs ''padding'' = None \<longrightarrow> ButtonStyle.padding style = ''12px 24px''"
    using d(4) v(4) by (auto simp add: btn dict_get_absent validate_str_JStr)
  show ?thesis by (intro exI [of _ style] conjI f1 f2 f3 f4 f5)
qed

theorem normalize_primary_button_witness:
  "\<exists>brand style.
     normalize no_coercion ''https://example.com'' button_payload [] = Inr brand \<and>
     BrandButtons.primary (buttons brand) = Some style \<and>
     bg style = ''#FF0000'' \<and> ButtonStyle.text_color style = ''#ffffff'' \<and>
     border_radius style = ''4px'' \<and> ButtonStyle.padding style = ''8px 16px''"
proof -
  let ?kvs = "[(''padding'', JStr ''8px 16px'')]"
  let ?st = "\<lparr>bg = ''#FF0000'', text_color = ''#ffffff'', border_radius = ''4px'',
              padding = ''8px 16px'', border = None, hover_bg = None\<rparr>"
  let ?b = "(brand_of ''#FF0000'' ''sans-serif'' ''sans-serif'')
              \<lparr>buttons := BrandButtons_default\<lparr>BrandButtons.primary := Some ?st\<rparr>\<rparr>"
  have n: "normalize no_coercion ''https://example.com'' button_payload [] = Inr ?b"
    by (simp add: normalize_def button_payload_def dict_get_def dict_item_def BrandColors_new_def
        BrandTypography_new_def BrandData_new_def ButtonStyle_new_def validate_str_def
        validate_opt_str_def validate_str_list_def validate_int_list_def validate_int_def
        brand_of_def)
  have mb: "member button_payload ''buttons'' = Some (JObj [(''primary'', JObj ?kvs)])"
    by (simp add: member_def button_payload_def)
  have mp: "member (JObj [(''primary'', JObj ?kvs)]) ''primary'' = Some (JObj ?kvs)"
    by (simp add: member_def)
  have ne: "?kvs \<noteq> []" by simp
  from normalize_primary_button [OF n mb mp ne] obtain style where
    x: "BrandButtons.primary (buttons ?b) = Some style \<and>
        (map_of ?kvs ''bg'' = None \<longrightarrow> bg style = BrandColors.primary (colors ?b)) \<and>
        (map_of ?kvs ''text'' = None \<longrightarrow> ButtonStyle.text_color style = ''#ffffff'') \<and>
        (map_of ?kvs ''border_radius'' = None \<longrightarrow> border_radius style = ''4px'') \<and>
        (map_of ?kvs ''padding'' = None \<longrightarrow> ButtonStyle.padding style = ''12px 24px'')" ..
  from x have s: "BrandButtons.primary (buttons ?b) = Some style" by (rule conjunct1)
  have m: "map_of ?kvs ''bg'' = None" "map_of ?kvs ''text'' = None"
    "map_of ?kvs ''border_radius'' = None" by simp_all
  have pc: "BrandColors.primary (colors ?b) = ''#FF0000''" by (simp add: brand_of_def)
  from x m pc have v: "bg style = ''#FF0000''" "ButtonStyle.text_color style = ''#ffffff''"
    "border_radius style = ''4px''" by (simp_all only: simp_thms)
  from s have "style = ?st" by (simp add: BrandButtons_default_def)
  then have p: "ButtonStyle.padding style = ''8px 16px''" by simp
  show ?thesis
    by (intro exI [of _ ?b] exI [of _ style] conjI n s v p)
qed


end
